theory Spec2Isabelle
  imports Complex_Main
begin

section \<open>The AEC3 subtractor (modules/audio_processing/aec3/subtractor.cc)\<close>

text \<open>
  A shallow embedding of \<^verbatim>\<open>Subtractor\<close> and its nested
  \<^verbatim>\<open>FilterMisadjustmentEstimator\<close>.

  Conventions of the model.
  \<^item> A C++ \<^verbatim>\<open>float\<close> is a real number: rounding, infinities and NaN are outside
    the model. An \<^verbatim>\<open>int\<close> is an unbounded integer (the counters of the estimator
    stay within 0..4), a \<^verbatim>\<open>size_t\<close> is a natural number.
  \<^item> A \<^verbatim>\<open>std::array\<close> or \<^verbatim>\<open>std::vector\<close> is a list; reading a list out of
    range has no specified value, so the theorems state the sizes they need.
  \<^item> The collaborators whose code is not part of the sources (the adaptive filter, the
    two update-gain computers, the FFT, the render buffer) are parameters of the model,
    collected in one record; nothing is assumed about what they compute except where a
    theorem states it as a hypothesis.
  \<^item> The data dumper only observes and is left out.
\<close>

type_synonym float = real

subsection \<open>Data\<close>

text \<open>\<^verbatim>\<open>FftData\<close>: the real and imaginary parts of a spectrum.\<close>

record FftData =
  re :: "float list"
  im :: "float list"

text \<open>
  Modelled from the spec: \<^verbatim>\<open>SubtractorOutput\<close> (its declaration is not among the
  sources) with the fields the spec and \<^verbatim>\<open>Subtractor::Process\<close> name: the residuals, the
  echo estimates, the error spectra and the scalar energies.
\<close>

record SubtractorOutput =
  s_main :: "float list"
  s_shadow :: "float list"
  e_main :: "float list"
  e_shadow :: "float list"
  E_main :: FftData
  E2_main :: "float list"
  E2_shadow :: "float list"
  e2_main :: float
  e2_shadow :: float
  y2 :: float

text \<open>The state of \<^verbatim>\<open>Subtractor::FilterMisadjustmentEstimator\<close>.\<close>

record FilterMisadjustmentEstimator =
  n_blocks_acum :: int
  e2_acum :: float
  y2_acum :: float
  inv_misadjustment :: float
  overhang :: int

text \<open>
  Modelled from the spec: the constant \<^verbatim>\<open>n_blocks_\<close> of the estimator (declared in
  subtractor.h, not among the sources); the spec fixes the accumulation window at 4
  blocks.
\<close>

definition n_blocks :: int where
  "n_blocks = 4"

subsection \<open>The misadjustment estimator\<close>

text \<open>
  \<^verbatim>\<open>FilterMisadjustmentEstimator::Update\<close> (lines 285-307). The block size
  \<^verbatim>\<open>kBlockSize\<close> is a constant of aec3_common.h, which is not among the sources: it is
  the first argument.
\<close>

definition Update ::
  "nat \<Rightarrow> SubtractorOutput \<Rightarrow> FilterMisadjustmentEstimator \<Rightarrow> FilterMisadjustmentEstimator"
where
  "Update kBlockSize output est =
    (let est1 = est\<lparr>e2_acum := e2_acum est + e2_main output,
                      y2_acum := y2_acum est + y2 output,
                      n_blocks_acum := n_blocks_acum est + 1\<rparr>
     in if n_blocks_acum est1 = n_blocks then
          (let est2 =
             (if y2_acum est1 > of_int n_blocks * 200 * 200 * real kBlockSize then
                (let update = e2_acum est1 / y2_acum est1;
                     est3 =
                       (if e2_acum est1 > of_int n_blocks * 7500 * 7500 * real kBlockSize
                        then est1\<lparr>overhang := 4\<rparr>
                        else est1\<lparr>overhang := max (overhang est1 - 1) 0\<rparr>)
                 in if update < inv_misadjustment est3 \<or> overhang est3 > 0
                    then est3\<lparr>inv_misadjustment :=
                           inv_misadjustment est3 + 0.1 * (update - inv_misadjustment est3)\<rparr>
                    else est3)
              else est1)
           in est2\<lparr>e2_acum := 0, y2_acum := 0, n_blocks_acum := 0\<rparr>)
        else est1)"

text \<open>\<^verbatim>\<open>FilterMisadjustmentEstimator::Reset\<close> (lines 309-315).\<close>

definition Reset :: "FilterMisadjustmentEstimator \<Rightarrow> FilterMisadjustmentEstimator" where
  "Reset est = est\<lparr>e2_acum := 0, y2_acum := 0, n_blocks_acum := 0,
                    inv_misadjustment := 0, overhang := 0\<rparr>"


subsection \<open>The collaborators\<close>

text \<open>
  \<^verbatim>\<open>EchoPathVariability\<close>: of the enumeration \<^verbatim>\<open>DelayAdjustment\<close> the sources name
  only \<^verbatim>\<open>kNone\<close>; every other enumerator is \<open>kOther\<close> with its number.
\<close>

datatype DelayAdjustment = kNone | kOther nat

record EchoPathVariability =
  gain_change :: bool
  delay_change :: DelayAdjustment

text \<open>
  Modelled from the spec: the configuration (\<^verbatim>\<open>EchoCanceller3Config::filter\<close>, declared
  outside the sources) carries the main and shadow filter lengths, initial and
  converged, and the duration of a configuration change.
\<close>

record FilterConfig =
  length_blocks :: nat

record FilterSettings =
  main :: FilterConfig
  main_initial :: FilterConfig
  shadow :: FilterConfig
  shadow_initial :: FilterConfig
  config_change_duration_blocks :: nat

text \<open>
  Modelled from the spec: the echo-state handle (\<^verbatim>\<open>AecState\<close>) exposes a
  capture-saturation flag; \<^verbatim>\<open>Subtractor::Process\<close> reads nothing else of it.
\<close>

record AecState =
  SaturatedCapture :: bool

text \<open>
  The code that is not among the sources, as parameters. The type variables are the
  render buffer \<open>'rb\<close>, the render signal analyzer \<open>'an\<close>, the adaptive filter \<open>'f\<close>
  (\<^verbatim>\<open>AdaptiveFirFilter\<close>, the class of the main and of the shadow filter), its
  coefficient state \<open>'h\<close> (what \<^verbatim>\<open>GetFilter\<close> returns and \<^verbatim>\<open>SetFilter\<close> takes), and
  the main and shadow update-gain computers \<open>'gm\<close> and \<open>'gs\<close>. A method that changes
  its object takes the object last and returns the new one; an out-parameter is a
  result (the callees write all of it). \<^verbatim>\<open>AdaptWithImpulseResponse\<close> is the overload of
  \<^verbatim>\<open>Adapt\<close> with the impulse response as third argument. The window of
  \<^verbatim>\<open>ZeroPaddedFft\<close> and the \<^verbatim>\<open>optimization_\<close> argument are fixed at construction and
  part of the functions.

  Modelled from the spec: \<^verbatim>\<open>IsAdjustmentNeeded\<close> and \<^verbatim>\<open>GetMisadjustment\<close> (defined in
  subtractor.h, not among the sources) expose whether the smoothed estimate indicates
  that the main filter should be rescaled, and by what factor: two functions of the
  smoothed estimate, \<open>adjustment_indicated\<close> and \<open>misadjustment_factor\<close>.
\<close>

record ('rb, 'an, 'f, 'h, 'gm, 'gs) collaborators =
  kBlockSize :: nat
  kFftLengthBy2 :: nat
  Ifft :: "FftData \<Rightarrow> float list"
  ZeroPaddedFft :: "float list \<Rightarrow> FftData"
  Spectrum :: "FftData \<Rightarrow> float list"
  SpectralSum :: "'rb \<Rightarrow> nat \<Rightarrow> float list"
  SpectralSums :: "'rb \<Rightarrow> nat \<Rightarrow> nat \<Rightarrow> float list \<times> float list"
  SizePartitions :: "'f \<Rightarrow> nat"
  Filter :: "'rb \<Rightarrow> 'f \<Rightarrow> FftData"
  Adapt :: "'rb \<Rightarrow> FftData \<Rightarrow> 'f \<Rightarrow> 'f"
  AdaptWithImpulseResponse :: "'rb \<Rightarrow> FftData \<Rightarrow> 'f \<Rightarrow> float list \<Rightarrow> 'f \<times> float list"
  ScaleFilter :: "float \<Rightarrow> 'f \<Rightarrow> 'f"
  GetFilter :: "'f \<Rightarrow> 'h"
  SetFilter :: "'h \<Rightarrow> 'f \<Rightarrow> 'f"
  ComputeFrequencyResponse :: "'f \<Rightarrow> float list list \<Rightarrow> float list list"
  FilterHandleEchoPathChange :: "'f \<Rightarrow> 'f"
  SetSizePartitions :: "nat \<Rightarrow> bool \<Rightarrow> 'f \<Rightarrow> 'f"
  ComputeErl :: "float list list \<Rightarrow> float list"
  MainCompute ::
    "float list \<Rightarrow> 'an \<Rightarrow> SubtractorOutput \<Rightarrow> float list \<Rightarrow> nat \<Rightarrow> bool \<Rightarrow> 'gm \<Rightarrow> FftData \<times> 'gm"
  MainHandleEchoPathChange :: "EchoPathVariability \<Rightarrow> 'gm \<Rightarrow> 'gm"
  MainSetConfig :: "FilterConfig \<Rightarrow> bool \<Rightarrow> 'gm \<Rightarrow> 'gm"
  ShadowCompute ::
    "float list \<Rightarrow> 'an \<Rightarrow> FftData \<Rightarrow> nat \<Rightarrow> bool \<Rightarrow> 'gs \<Rightarrow> FftData \<times> 'gs"
  ShadowHandleEchoPathChange :: "'gs \<Rightarrow> 'gs"
  ShadowSetConfig :: "FilterConfig \<Rightarrow> bool \<Rightarrow> 'gs \<Rightarrow> 'gs"
  adjustment_indicated :: "float \<Rightarrow> bool"
  misadjustment_factor :: "float \<Rightarrow> float"

definition IsAdjustmentNeeded ::
  "('rb, 'an, 'f, 'h, 'gm, 'gs) collaborators \<Rightarrow> FilterMisadjustmentEstimator \<Rightarrow> bool"
where
  "IsAdjustmentNeeded env est = adjustment_indicated env (inv_misadjustment est)"

definition GetMisadjustment ::
  "('rb, 'an, 'f, 'h, 'gm, 'gs) collaborators \<Rightarrow> FilterMisadjustmentEstimator \<Rightarrow> float"
where
  "GetMisadjustment env est = misadjustment_factor env (inv_misadjustment est)"

text \<open>
  Modelled from the spec: \<^verbatim>\<open>SubtractorOutput::ComputeMetrics\<close> (not among the sources)
  computes the energies: the summed squared residuals and the summed squared capture.
\<close>

definition ComputeMetrics :: "float list \<Rightarrow> SubtractorOutput \<Rightarrow> SubtractorOutput" where
  "ComputeMetrics y output =
    output\<lparr>e2_main := sum_list (map (\<lambda>v. v * v) (e_main output)),
           e2_shadow := sum_list (map (\<lambda>v. v * v) (e_shadow output)),
           y2 := sum_list (map (\<lambda>v. v * v) y)\<rparr>"

text \<open>
  Modelled from the spec: \<^verbatim>\<open>rtc::SafeClamp\<close> (rtc_base/numerics/safe_minmax.h, not
  among the sources) clamps its first argument to the range of the other two.
\<close>

definition SafeClamp :: "float \<Rightarrow> float \<Rightarrow> float \<Rightarrow> float" where
  "SafeClamp x lo hi = (if x \<le> lo then lo else if hi \<le> x then hi else x)"

subsection \<open>The helpers of subtractor.cc\<close>

text \<open>
  \<^verbatim>\<open>PredictionError\<close> (lines 27-43). \<^verbatim>\<open>std::transform\<close> writes the first
  \<^verbatim>\<open>y.size()\<close> samples of \<open>e\<close>; the echo estimate \<open>s\<close> may be a null pointer
  (\<open>None\<close>) and is written in full otherwise.
\<close>

definition PredictionError ::
  "('rb, 'an, 'f, 'h, 'gm, 'gs) collaborators \<Rightarrow> FftData \<Rightarrow> float list \<Rightarrow> float list \<Rightarrow>
   float list option \<Rightarrow> float list \<times> float list option"
where
  "PredictionError env S y e s =
    (let tmp = Ifft env S;
         kScale = 1 / real (kFftLengthBy2 env);
         e' = map (\<lambda>i. y ! i - tmp ! (i + kFftLengthBy2 env) * kScale) [0..<length y]
              @ drop (length y) e;
         s' = (case s of
                 None \<Rightarrow> None
               | Some sv \<Rightarrow>
                   Some (map (\<lambda>k. kScale * tmp ! (k + kFftLengthBy2 env)) [0..<length sv]))
     in (e', s'))"

text \<open>
  \<^verbatim>\<open>ScaleFilterOutput\<close> (lines 45-55): the loop over \<open>k < y.size()\<close>. The source
  checks that \<open>e\<close> and \<open>s\<close> have the size of \<open>y\<close>.
\<close>

definition ScaleFilterOutput ::
  "float list \<Rightarrow> float \<Rightarrow> float list \<Rightarrow> float list \<Rightarrow> float list \<times> float list"
where
  "ScaleFilterOutput y factor e s =
    fold (\<lambda>k (e, s). let s' = s[k := s ! k * factor] in (e[k := y ! k - s' ! k], s'))
      [0..<length y] (e, s)"

subsection \<open>The subtractor\<close>

text \<open>
  The members of \<^verbatim>\<open>Subtractor\<close>. Every vector has one entry per capture channel
  (\<open>wf\<close>), as the constructor (lines 59-113) makes them.
\<close>

record ('f, 'gm, 'gs) Subtractor =
  config :: FilterSettings
  num_capture_channels :: nat
  main_filter :: "'f list"
  shadow_filter :: "'f list"
  G_main :: "'gm list"
  G_shadow :: "'gs list"
  filter_misadjustment_estimator :: "FilterMisadjustmentEstimator list"
  poor_shadow_filter_counter :: "nat list"
  main_frequency_response :: "float list list list"
  main_impulse_response :: "float list list"

definition wf :: "('f, 'gm, 'gs) Subtractor \<Rightarrow> bool" where
  "wf st \<longleftrightarrow>
     length (main_filter st) = num_capture_channels st \<and>
     length (shadow_filter st) = num_capture_channels st \<and>
     length (G_main st) = num_capture_channels st \<and>
     length (G_shadow st) = num_capture_channels st \<and>
     length (filter_misadjustment_estimator st) = num_capture_channels st \<and>
     length (poor_shadow_filter_counter st) = num_capture_channels st \<and>
     length (main_frequency_response st) = num_capture_channels st \<and>
     length (main_impulse_response st) = num_capture_channels st"

subsubsection \<open>HandleEchoPathChange\<close>

text \<open>
  The body of the loop of \<^verbatim>\<open>full_reset\<close> (lines 120-131) for the channel \<open>ch\<close>: each
  of the four objects of the channel receives its calls in the order of the source.
\<close>

definition full_reset_channel ::
  "('rb, 'an, 'f, 'h, 'gm, 'gs) collaborators \<Rightarrow> EchoPathVariability \<Rightarrow> nat \<Rightarrow>
   ('f, 'gm, 'gs) Subtractor \<Rightarrow> ('f, 'gm, 'gs) Subtractor"
where
  "full_reset_channel env echo_path_variability ch st =
    st\<lparr>main_filter := (main_filter st)[ch :=
           SetSizePartitions env (length_blocks (main_initial (config st))) True
             (FilterHandleEchoPathChange env (main_filter st ! ch))],
       shadow_filter := (shadow_filter st)[ch :=
           SetSizePartitions env (length_blocks (shadow_initial (config st))) True
             (FilterHandleEchoPathChange env (shadow_filter st ! ch))],
       G_main := (G_main st)[ch :=
           MainSetConfig env (main_initial (config st)) True
             (MainHandleEchoPathChange env echo_path_variability (G_main st ! ch))],
       G_shadow := (G_shadow st)[ch :=
           ShadowSetConfig env (shadow_initial (config st)) True
             (ShadowHandleEchoPathChange env (G_shadow st ! ch))]\<rparr>"

definition full_reset ::
  "('rb, 'an, 'f, 'h, 'gm, 'gs) collaborators \<Rightarrow> EchoPathVariability \<Rightarrow>
   ('f, 'gm, 'gs) Subtractor \<Rightarrow> ('f, 'gm, 'gs) Subtractor"
where
  "full_reset env echo_path_variability st =
    fold (full_reset_channel env echo_path_variability) [0..<num_capture_channels st] st"

text \<open>The loop of lines 140-142.\<close>

definition notify_gain_change ::
  "('rb, 'an, 'f, 'h, 'gm, 'gs) collaborators \<Rightarrow> EchoPathVariability \<Rightarrow>
   ('f, 'gm, 'gs) Subtractor \<Rightarrow> ('f, 'gm, 'gs) Subtractor"
where
  "notify_gain_change env echo_path_variability st =
    fold (\<lambda>ch st. st\<lparr>G_main := (G_main st)[ch :=
                        MainHandleEchoPathChange env echo_path_variability (G_main st ! ch)]\<rparr>)
      [0..<num_capture_channels st] st"

text \<open>\<^verbatim>\<open>Subtractor::HandleEchoPathChange\<close> (lines 117-144).\<close>

definition HandleEchoPathChange ::
  "('rb, 'an, 'f, 'h, 'gm, 'gs) collaborators \<Rightarrow> EchoPathVariability \<Rightarrow>
   ('f, 'gm, 'gs) Subtractor \<Rightarrow> ('f, 'gm, 'gs) Subtractor"
where
  "HandleEchoPathChange env echo_path_variability st =
    (let st1 = (if delay_change echo_path_variability \<noteq> kNone
                then full_reset env echo_path_variability st else st)
     in if gain_change echo_path_variability
        then notify_gain_change env echo_path_variability st1 else st1)"

subsubsection \<open>Process\<close>

text \<open>
  The render powers (lines 164-183). In the source \<open>X2_shadow\<close> is a reference, to
  \<open>X2_main\<close> when the two filters of channel 0 have the same number of partitions and
  to a buffer of its own otherwise: \<open>Shared\<close> is the first case, with the one buffer,
  \<open>Separate\<close> the second, with the main and the shadow buffer.
\<close>

datatype RenderPowers = Shared "float list" | Separate "float list" "float list"

fun X2_main_of :: "RenderPowers \<Rightarrow> float list" where
  "X2_main_of (Shared X2) = X2"
| "X2_main_of (Separate X2_main X2_shadow) = X2_main"

fun X2_shadow_of :: "RenderPowers \<Rightarrow> float list" where
  "X2_shadow_of (Shared X2) = X2"
| "X2_shadow_of (Separate X2_main X2_shadow) = X2_shadow"

definition ComputeRenderPowers ::
  "('rb, 'an, 'f, 'h, 'gm, 'gs) collaborators \<Rightarrow> 'rb \<Rightarrow> ('f, 'gm, 'gs) Subtractor \<Rightarrow> RenderPowers"
where
  "ComputeRenderPowers env render_buffer st =
    (if SizePartitions env (main_filter st ! 0) = SizePartitions env (shadow_filter st ! 0)
     then Shared (SpectralSum env render_buffer (SizePartitions env (main_filter st ! 0)))
     else if SizePartitions env (main_filter st ! 0) > SizePartitions env (shadow_filter st ! 0)
     then (case SpectralSums env render_buffer (SizePartitions env (shadow_filter st ! 0))
                  (SizePartitions env (main_filter st ! 0)) of
             (X2_shadow, X2_main) \<Rightarrow> Separate X2_main X2_shadow)
     else (case SpectralSums env render_buffer (SizePartitions env (main_filter st ! 0))
                  (SizePartitions env (shadow_filter st ! 0)) of
             (X2_main, X2_shadow) \<Rightarrow> Separate X2_main X2_shadow))"

text \<open>
  The body of the loop over the channels (lines 187-282) reads and writes the entries
  of one channel only; \<open>channel\<close> collects them and \<open>set_channel\<close> stores them back.
\<close>

record ('f, 'gm, 'gs) channel_state =
  ch_main_filter :: 'f
  ch_shadow_filter :: 'f
  ch_G_main :: 'gm
  ch_G_shadow :: 'gs
  ch_estimator :: FilterMisadjustmentEstimator
  ch_poor_shadow_filter_counter :: nat
  ch_frequency_response :: "float list list"
  ch_impulse_response :: "float list"

definition channel :: "('f, 'gm, 'gs) Subtractor \<Rightarrow> nat \<Rightarrow> ('f, 'gm, 'gs) channel_state" where
  "channel st ch =
    \<lparr>ch_main_filter = main_filter st ! ch,
     ch_shadow_filter = shadow_filter st ! ch,
     ch_G_main = G_main st ! ch,
     ch_G_shadow = G_shadow st ! ch,
     ch_estimator = filter_misadjustment_estimator st ! ch,
     ch_poor_shadow_filter_counter = poor_shadow_filter_counter st ! ch,
     ch_frequency_response = main_frequency_response st ! ch,
     ch_impulse_response = main_impulse_response st ! ch\<rparr>"

definition set_channel ::
  "('f, 'gm, 'gs) Subtractor \<Rightarrow> nat \<Rightarrow> ('f, 'gm, 'gs) channel_state \<Rightarrow> ('f, 'gm, 'gs) Subtractor"
where
  "set_channel st ch c =
    st\<lparr>main_filter := (main_filter st)[ch := ch_main_filter c],
       shadow_filter := (shadow_filter st)[ch := ch_shadow_filter c],
       G_main := (G_main st)[ch := ch_G_main c],
       G_shadow := (G_shadow st)[ch := ch_G_shadow c],
       filter_misadjustment_estimator :=
         (filter_misadjustment_estimator st)[ch := ch_estimator c],
       poor_shadow_filter_counter :=
         (poor_shadow_filter_counter st)[ch := ch_poor_shadow_filter_counter c],
       main_frequency_response := (main_frequency_response st)[ch := ch_frequency_response c],
       main_impulse_response := (main_impulse_response st)[ch := ch_impulse_response c]\<rparr>"

text \<open>
  Lines 198-206: the outputs of the two filters and the signal powers. Both calls of
  \<^verbatim>\<open>PredictionError\<close> pass a pointer to the echo estimate.
\<close>

definition FormOutputs ::
  "('rb, 'an, 'f, 'h, 'gm, 'gs) collaborators \<Rightarrow> 'rb \<Rightarrow> float list \<Rightarrow>
   ('f, 'gm, 'gs) channel_state \<Rightarrow> SubtractorOutput \<Rightarrow> SubtractorOutput"
where
  "FormOutputs env render_buffer y c output =
    (case PredictionError env (Filter env render_buffer (ch_main_filter c)) y
            (e_main output) (Some (s_main output)) of
       (e_m, s_m) \<Rightarrow>
     case PredictionError env (Filter env render_buffer (ch_shadow_filter c)) y
            (e_shadow output) (Some (s_shadow output)) of
       (e_s, s_s) \<Rightarrow>
     ComputeMetrics y
       (output\<lparr>e_main := e_m,
               s_main := (case s_m of Some v \<Rightarrow> v | None \<Rightarrow> s_main output),
               e_shadow := e_s,
               s_shadow := (case s_s of Some v \<Rightarrow> v | None \<Rightarrow> s_shadow output)\<rparr>))"

text \<open>
  Lines 208-220: the misadjustment estimator and the rescaling of the main filter.
  The third component is \<open>main_filter_adjusted\<close>.
\<close>

definition AdjustFilter ::
  "('rb, 'an, 'f, 'h, 'gm, 'gs) collaborators \<Rightarrow> float list \<Rightarrow>
   ('f, 'gm, 'gs) channel_state \<Rightarrow> SubtractorOutput \<Rightarrow>
   ('f, 'gm, 'gs) channel_state \<times> SubtractorOutput \<times> bool"
where
  "AdjustFilter env y c output =
    (let est = Update (kBlockSize env) output (ch_estimator c)
     in if IsAdjustmentNeeded env est then
          (let scale = GetMisadjustment env est
           in case ScaleFilterOutput y scale (e_main output) (s_main output) of
                (e, s) \<Rightarrow>
                  (c\<lparr>ch_main_filter := ScaleFilter env scale (ch_main_filter c),
                     ch_impulse_response := map (\<lambda>h_k. h_k * scale) (ch_impulse_response c),
                     ch_estimator := Reset est\<rparr>,
                   output\<lparr>e_main := e, s_main := s\<rparr>,
                   True))
        else (c\<lparr>ch_estimator := est\<rparr>, output, False))"

text \<open>
  Lines 222-228: the spectra of the two residuals. \<open>E_shadow\<close> is a local variable of
  the loop body and is returned beside the output.
\<close>

definition ComputeSpectra ::
  "('rb, 'an, 'f, 'h, 'gm, 'gs) collaborators \<Rightarrow> SubtractorOutput \<Rightarrow> SubtractorOutput \<times> FftData"
where
  "ComputeSpectra env output =
    (let E_m = ZeroPaddedFft env (e_main output);
         E_shadow = ZeroPaddedFft env (e_shadow output)
     in (output\<lparr>E_main := E_m,
                E2_shadow := Spectrum env E_shadow,
                E2_main := Spectrum env E_m\<rparr>,
         E_shadow))"

text \<open>
  Lines 230-242: the update of the main filter. The gain \<open>G\<close> is a reference to the
  buffer \<open>S\<close>, which holds the output of the shadow filter at this point; on the
  adjusted path both of its arrays are filled with zeros.
\<close>

definition UpdateMainFilter ::
  "('rb, 'an, 'f, 'h, 'gm, 'gs) collaborators \<Rightarrow> 'rb \<Rightarrow> 'an \<Rightarrow> AecState \<Rightarrow> float list \<Rightarrow>
   FftData \<Rightarrow> bool \<Rightarrow> SubtractorOutput \<Rightarrow> ('f, 'gm, 'gs) channel_state \<Rightarrow>
   ('f, 'gm, 'gs) channel_state"
where
  "UpdateMainFilter env render_buffer render_signal_analyzer aec_state X2_main S
     main_filter_adjusted output c =
    (case (if \<not> main_filter_adjusted
           then MainCompute env X2_main render_signal_analyzer output
                  (ComputeErl env (ch_frequency_response c))
                  (SizePartitions env (ch_main_filter c))
                  (SaturatedCapture aec_state) (ch_G_main c)
           else (S\<lparr>re := map (\<lambda>_. 0) (re S), im := map (\<lambda>_. 0) (im S)\<rparr>, ch_G_main c)) of
       (G, g_main) \<Rightarrow>
     case AdaptWithImpulseResponse env render_buffer G (ch_main_filter c)
            (ch_impulse_response c) of
       (f, h) \<Rightarrow>
         c\<lparr>ch_G_main := g_main,
           ch_main_filter := f,
           ch_impulse_response := h,
           ch_frequency_response :=
             ComputeFrequencyResponse env f (ch_frequency_response c)\<rparr>)"

text \<open>Lines 249-265: the update of the shadow filter.\<close>

definition UpdateShadowFilter ::
  "('rb, 'an, 'f, 'h, 'gm, 'gs) collaborators \<Rightarrow> 'rb \<Rightarrow> 'an \<Rightarrow> AecState \<Rightarrow> float list \<Rightarrow>
   FftData \<Rightarrow> SubtractorOutput \<Rightarrow> ('f, 'gm, 'gs) channel_state \<Rightarrow>
   ('f, 'gm, 'gs) channel_state"
where
  "UpdateShadowFilter env render_buffer render_signal_analyzer aec_state X2_shadow E_shadow
     output c =
    (let counter = (if e2_main output < e2_shadow output
                    then ch_poor_shadow_filter_counter c + 1 else 0)
     in if counter < 5 then
          (case ShadowCompute env X2_shadow render_signal_analyzer E_shadow
                  (SizePartitions env (ch_shadow_filter c))
                  (SaturatedCapture aec_state) (ch_G_shadow c) of
             (G, g_shadow) \<Rightarrow>
               c\<lparr>ch_poor_shadow_filter_counter := counter,
                 ch_G_shadow := g_shadow,
                 ch_shadow_filter := Adapt env render_buffer G (ch_shadow_filter c)\<rparr>)
        else
          (let f = SetFilter env (GetFilter env (ch_main_filter c)) (ch_shadow_filter c)
           in case ShadowCompute env X2_shadow render_signal_analyzer (E_main output)
                     (SizePartitions env f) (SaturatedCapture aec_state) (ch_G_shadow c) of
                (G, g_shadow) \<Rightarrow>
                  c\<lparr>ch_poor_shadow_filter_counter := 0,
                    ch_G_shadow := g_shadow,
                    ch_shadow_filter := Adapt env render_buffer G f\<rparr>))"

text \<open>Lines 273-274: the clamp of the main residual.\<close>

definition ClampMain :: "SubtractorOutput \<Rightarrow> SubtractorOutput" where
  "ClampMain output = output\<lparr>e_main := map (\<lambda>a. SafeClamp a (- 32768) 32767) (e_main output)\<rparr>"

text \<open>The body of the loop over the channels (lines 187-282), for one channel.\<close>

definition ProcessChannel ::
  "('rb, 'an, 'f, 'h, 'gm, 'gs) collaborators \<Rightarrow> 'rb \<Rightarrow> float list \<Rightarrow> 'an \<Rightarrow> AecState \<Rightarrow>
   float list \<Rightarrow> float list \<Rightarrow> ('f, 'gm, 'gs) channel_state \<Rightarrow> SubtractorOutput \<Rightarrow>
   ('f, 'gm, 'gs) channel_state \<times> SubtractorOutput"
where
  "ProcessChannel env render_buffer y render_signal_analyzer aec_state X2_main X2_shadow
     c output =
    (let S = Filter env render_buffer (ch_shadow_filter c);
         output1 = FormOutputs env render_buffer y c output
     in case AdjustFilter env y c output1 of
          (c2, output2, main_filter_adjusted) \<Rightarrow>
        case ComputeSpectra env output2 of
          (output3, E_shadow) \<Rightarrow>
            (UpdateShadowFilter env render_buffer render_signal_analyzer aec_state X2_shadow
               E_shadow output3
               (UpdateMainFilter env render_buffer render_signal_analyzer aec_state X2_main S
                  main_filter_adjusted output3 c2),
             ClampMain output3))"

text \<open>The loop over the channels, with the render powers given.\<close>

definition ProcessChannels ::
  "('rb, 'an, 'f, 'h, 'gm, 'gs) collaborators \<Rightarrow> 'rb \<Rightarrow> float list list \<Rightarrow> 'an \<Rightarrow> AecState \<Rightarrow>
   float list \<Rightarrow> float list \<Rightarrow> ('f, 'gm, 'gs) Subtractor \<times> SubtractorOutput list \<Rightarrow>
   ('f, 'gm, 'gs) Subtractor \<times> SubtractorOutput list"
where
  "ProcessChannels env render_buffer capture render_signal_analyzer aec_state X2_main X2_shadow
     st_outputs =
    fold (\<lambda>ch (st, outputs).
            case ProcessChannel env render_buffer (capture ! ch) render_signal_analyzer
                   aec_state X2_main X2_shadow (channel st ch) (outputs ! ch) of
              (c, output) \<Rightarrow> (set_channel st ch c, outputs[ch := output]))
      [0..<num_capture_channels (fst st_outputs)] st_outputs"

text \<open>
  \<^verbatim>\<open>Subtractor::Process\<close> (lines 157-283): the new state of the subtractor and the
  outputs, one per channel, written over the ones the caller passes.
\<close>

definition Process ::
  "('rb, 'an, 'f, 'h, 'gm, 'gs) collaborators \<Rightarrow> 'rb \<Rightarrow> float list list \<Rightarrow> 'an \<Rightarrow> AecState \<Rightarrow>
   ('f, 'gm, 'gs) Subtractor \<times> SubtractorOutput list \<Rightarrow>
   ('f, 'gm, 'gs) Subtractor \<times> SubtractorOutput list"
where
  "Process env render_buffer capture render_signal_analyzer aec_state st_outputs =
    (let X2 = ComputeRenderPowers env render_buffer (fst st_outputs)
     in ProcessChannels env render_buffer capture render_signal_analyzer aec_state
          (X2_main_of X2) (X2_shadow_of X2) st_outputs)"

subsubsection \<open>A run of blocks\<close>

text \<open>
  A run calls \<^verbatim>\<open>Process\<close> once per block. The input of a block is the render buffer,
  the capture, the analyzer and the echo state; the caller passes, beside it, the
  array of outputs that \<^verbatim>\<open>Process\<close> writes. The result of the run is the sequence of
  the outputs of its blocks.
\<close>

fun ProcessBlocks ::
  "('rb, 'an, 'f, 'h, 'gm, 'gs) collaborators \<Rightarrow>
   (('rb \<times> float list list \<times> 'an \<times> AecState) \<times> SubtractorOutput list) list \<Rightarrow>
   ('f, 'gm, 'gs) Subtractor \<Rightarrow> SubtractorOutput list list"
where
  "ProcessBlocks env [] st = []"
| "ProcessBlocks env (((render_buffer, capture, render_signal_analyzer, aec_state), outputs)
                       # blocks) st =
    (case Process env render_buffer capture render_signal_analyzer aec_state (st, outputs) of
       (st', outputs') \<Rightarrow> outputs' # ProcessBlocks env blocks st')"

text \<open>
  The arrays of a \<^verbatim>\<open>SubtractorOutput\<close> that \<^verbatim>\<open>PredictionError\<close> writes have the size
  of a block, whatever they hold.
\<close>

definition block_sized :: "nat \<Rightarrow> SubtractorOutput \<Rightarrow> bool" where
  "block_sized n output \<longleftrightarrow>
     length (e_main output) = n \<and> length (e_shadow output) = n \<and>
     length (s_main output) = n \<and> length (s_shadow output) = n"

text \<open>
  The inputs of a run fit a subtractor when every capture has one block per channel
  (the check of line 162) of the size of a block (line 187); the output arrays fit
  when each has one output per channel, with arrays of the size of a block.
\<close>

definition inputs_fit ::
  "('rb, 'an, 'f, 'h, 'gm, 'gs) collaborators \<Rightarrow> ('f, 'gm, 'gs) Subtractor \<Rightarrow>
   ('rb \<times> float list list \<times> 'an \<times> AecState) list \<Rightarrow> bool"
where
  "inputs_fit env st inputs \<longleftrightarrow>
     list_all (\<lambda>(render_buffer, capture, render_signal_analyzer, aec_state).
                 length capture = num_capture_channels st \<and>
                 list_all (\<lambda>y. length y = kBlockSize env) capture) inputs"

definition buffers_fit ::
  "('rb, 'an, 'f, 'h, 'gm, 'gs) collaborators \<Rightarrow> ('f, 'gm, 'gs) Subtractor \<Rightarrow>
   SubtractorOutput list list \<Rightarrow> bool"
where
  "buffers_fit env st buffers \<longleftrightarrow>
     list_all (\<lambda>outputs. length outputs = num_capture_channels st \<and>
                          list_all (block_sized (kBlockSize env)) outputs) buffers"

subsection \<open>A small instance\<close>

text \<open>
  The examples evaluate the model on a frequency-domain canceller with blocks of one
  sample: an FFT of length 2, whose two bins are real, filters that are lists of
  partitions, a render buffer that is the list of the render spectra (the latest
  first), and update gains with the step 1/2 of the error over the render power. It
  stands for the collaborators where the model is evaluated on concrete inputs; the
  general statements hold for every choice of the collaborators.
\<close>

definition toy_Spectrum :: "FftData \<Rightarrow> float list" where
  "toy_Spectrum X = map (\<lambda>k. re X ! k * re X ! k + im X ! k * im X ! k) [0, 1]"

definition toy_SpectralSum :: "FftData list \<Rightarrow> nat \<Rightarrow> float list" where
  "toy_SpectralSum render_buffer n =
    map (\<lambda>k. sum_list (map (\<lambda>X. toy_Spectrum X ! k) (take n render_buffer))) [0, 1]"

definition toy_Filter :: "FftData list \<Rightarrow> FftData list \<Rightarrow> FftData" where
  "toy_Filter render_buffer f =
    \<lparr>re = map (\<lambda>k. sum_list (map (\<lambda>(X, H). re X ! k * re H ! k - im X ! k * im H ! k)
                                (zip render_buffer f))) [0, 1],
     im = map (\<lambda>k. sum_list (map (\<lambda>(X, H). re X ! k * im H ! k + im X ! k * re H ! k)
                                (zip render_buffer f))) [0, 1]\<rparr>"

definition toy_Adapt :: "FftData list \<Rightarrow> FftData \<Rightarrow> FftData list \<Rightarrow> FftData list" where
  "toy_Adapt render_buffer G f =
    map (\<lambda>(X, H).
           \<lparr>re = map (\<lambda>k. re H ! k + re X ! k * re G ! k + im X ! k * im G ! k) [0, 1],
            im = map (\<lambda>k. im H ! k + re X ! k * im G ! k - im X ! k * re G ! k) [0, 1]\<rparr>)
      (zip render_buffer f)"

definition toy_gain :: "float list \<Rightarrow> FftData \<Rightarrow> bool \<Rightarrow> FftData" where
  "toy_gain X2 E saturated =
    \<lparr>re = map (\<lambda>k. if \<not> saturated \<and> 0 < X2 ! k then re E ! k / (2 * X2 ! k) else 0) [0, 1],
     im = map (\<lambda>k. if \<not> saturated \<and> 0 < X2 ! k then im E ! k / (2 * X2 ! k) else 0) [0, 1]\<rparr>"

definition toy ::
  "(FftData list, unit, FftData list, FftData list, FilterConfig, FilterConfig) collaborators"
where
  "toy =
    \<lparr>kBlockSize = 1,
     kFftLengthBy2 = 1,
     Ifft = (\<lambda>S. [(re S ! 0 + re S ! 1) / 2, (re S ! 0 - re S ! 1) / 2]),
     ZeroPaddedFft = (\<lambda>e. \<lparr>re = [e ! 0, - (e ! 0)], im = [0, 0]\<rparr>),
     Spectrum = toy_Spectrum,
     SpectralSum = toy_SpectralSum,
     SpectralSums = (\<lambda>render_buffer n1 n2.
       (toy_SpectralSum render_buffer n1, toy_SpectralSum render_buffer n2)),
     SizePartitions = length,
     Filter = toy_Filter,
     Adapt = toy_Adapt,
     AdaptWithImpulseResponse = (\<lambda>render_buffer G f h.
       (toy_Adapt render_buffer G f,
        map (\<lambda>H. (re H ! 0 + re H ! 1) / 2) (toy_Adapt render_buffer G f))),
     ScaleFilter = (\<lambda>factor f.
       map (\<lambda>H. \<lparr>re = map (\<lambda>v. v * factor) (re H), im = map (\<lambda>v. v * factor) (im H)\<rparr>) f),
     GetFilter = (\<lambda>f. f),
     SetFilter = (\<lambda>h f. h),
     ComputeFrequencyResponse = (\<lambda>f H2. map toy_Spectrum f),
     FilterHandleEchoPathChange = map (\<lambda>H. \<lparr>re = [0, 0], im = [0, 0]\<rparr>),
     SetSizePartitions = (\<lambda>n immediate f.
       take n f @ replicate (n - length f) \<lparr>re = [0, 0], im = [0, 0]\<rparr>),
     ComputeErl = (\<lambda>H2. map (\<lambda>k. sum_list (map (\<lambda>H2_p. H2_p ! k) H2)) [0, 1]),
     MainCompute = (\<lambda>X2 analyzer output erl n saturated g.
       (toy_gain X2 (E_main output) saturated, g)),
     MainHandleEchoPathChange = (\<lambda>v g. g),
     MainSetConfig = (\<lambda>cfg immediate g. cfg),
     ShadowCompute = (\<lambda>X2 analyzer E n saturated g. (toy_gain X2 E saturated, g)),
     ShadowHandleEchoPathChange = (\<lambda>g. g),
     ShadowSetConfig = (\<lambda>cfg immediate g. cfg),
     adjustment_indicated = (\<lambda>inv. 10 < inv),
     misadjustment_factor = (\<lambda>inv. 1 / 2)\<rparr>"

text \<open>
  One channel, one partition per filter: the main filter holds the coefficient 1, the
  shadow filter the coefficient 0, and the shadow filter has been the poorer one for
  \<open>n\<close> blocks; the estimator is \<open>est\<close>.
\<close>

definition toy_settings :: FilterSettings where
  "toy_settings =
    \<lparr>main = \<lparr>length_blocks = 2\<rparr>, main_initial = \<lparr>length_blocks = 1\<rparr>,
     shadow = \<lparr>length_blocks = 2\<rparr>, shadow_initial = \<lparr>length_blocks = 1\<rparr>,
     config_change_duration_blocks = 250\<rparr>"

definition toy_state ::
  "nat \<Rightarrow> FilterMisadjustmentEstimator \<Rightarrow> (FftData list, FilterConfig, FilterConfig) Subtractor"
where
  "toy_state n est =
    \<lparr>config = toy_settings,
     num_capture_channels = 1,
     main_filter = [[\<lparr>re = [1, 1], im = [0, 0]\<rparr>]],
     shadow_filter = [[\<lparr>re = [0, 0], im = [0, 0]\<rparr>]],
     G_main = [\<lparr>length_blocks = 1\<rparr>],
     G_shadow = [\<lparr>length_blocks = 1\<rparr>],
     filter_misadjustment_estimator = [est],
     poor_shadow_filter_counter = [n],
     main_frequency_response = [[[1, 1]]],
     main_impulse_response = [[1]]\<rparr>"

definition toy_estimator :: FilterMisadjustmentEstimator where
  "toy_estimator =
    \<lparr>n_blocks_acum = 0, e2_acum = 0, y2_acum = 0, inv_misadjustment = 0, overhang = 0\<rparr>"

text \<open>The render block 1 after the block 0: the spectrum of the pair (0, 1).\<close>

definition toy_render :: "FftData list" where
  "toy_render = [\<lparr>re = [1, - 1], im = [0, 0]\<rparr>]"

definition toy_output :: SubtractorOutput where
  "toy_output =
    \<lparr>s_main = [0], s_shadow = [0], e_main = [0], e_shadow = [0],
     E_main = \<lparr>re = [0, 0], im = [0, 0]\<rparr>, E2_main = [0, 0], E2_shadow = [0, 0],
     e2_main = 0, e2_shadow = 0, y2 = 0\<rparr>"

definition toy_aec :: AecState where
  "toy_aec = \<lparr>SaturatedCapture = False\<rparr>"

text \<open>The output of a block with the energies \<open>e2\<close> and \<open>y2\<close>, for the estimator.\<close>

definition toy_energies :: "float \<Rightarrow> float \<Rightarrow> SubtractorOutput" where
  "toy_energies e2 y2v = toy_output\<lparr>e2_main := e2, y2 := y2v\<rparr>"

text \<open>An estimator one block before the end of its window, with a large error energy.\<close>

definition toy_diverged :: FilterMisadjustmentEstimator where
  "toy_diverged = toy_estimator\<lparr>n_blocks_acum := 3, e2_acum := 1000000000\<rparr>"

text \<open>
  Three blocks of the small instance: the fifth block in a row on which the shadow
  filter is the poorer one, a block with a capture sample beyond the 16-bit range, and
  a block on which the estimator asks for an adjustment.
\<close>

definition toy_resync_block ::
  "(FftData list, FilterConfig, FilterConfig) Subtractor \<times> SubtractorOutput list"
where
  "toy_resync_block =
    Process toy toy_render [[2]] () toy_aec (toy_state 4 toy_estimator, [toy_output])"

definition toy_loud_block ::
  "(FftData list, FilterConfig, FilterConfig) Subtractor \<times> SubtractorOutput list"
where
  "toy_loud_block =
    Process toy toy_render [[40000]] () toy_aec (toy_state 0 toy_estimator, [toy_output])"

definition toy_adjust_block ::
  "(FftData list, FilterConfig, FilterConfig) Subtractor \<times> SubtractorOutput list"
where
  "toy_adjust_block =
    Process toy toy_render [[500]] () toy_aec (toy_state 0 toy_diverged, [toy_output])"

text \<open>
  A state whose main filter has two partitions and whose shadow filter has one, and a
  render buffer with two spectra.
\<close>

definition toy_state2 :: "(FftData list, FilterConfig, FilterConfig) Subtractor" where
  "toy_state2 =
    (toy_state 0 toy_estimator)
      \<lparr>main_filter := [[\<lparr>re = [1, 1], im = [0, 0]\<rparr>, \<lparr>re = [0, 0], im = [0, 0]\<rparr>]]\<rparr>"

definition toy_render2 :: "FftData list" where
  "toy_render2 = [\<lparr>re = [1, - 1], im = [0, 0]\<rparr>, \<lparr>re = [3, 3], im = [0, 0]\<rparr>]"

text \<open>Two events: a change of the delay, and a change of the gain alone.\<close>

definition toy_delay_change :: EchoPathVariability where
  "toy_delay_change = \<lparr>gain_change = False, delay_change = kOther 1\<rparr>"

definition toy_gain_change :: EchoPathVariability where
  "toy_gain_change = \<lparr>gain_change = True, delay_change = kNone\<rparr>"

text \<open>An output array that holds other values than \<open>toy_output\<close>, left by an earlier use.\<close>

definition toy_stale_output :: SubtractorOutput where
  "toy_stale_output =
    \<lparr>s_main = [5], s_shadow = [6], e_main = [7], e_shadow = [8],
     E_main = \<lparr>re = [1, 2], im = [3, 4]\<rparr>, E2_main = [9, 9], E2_shadow = [9, 9],
     e2_main = 1, e2_shadow = 2, y2 = 3\<rparr>"


text \<open>A block from the state with filters of different lengths.\<close>

definition toy_long_block ::
  "(FftData list, FilterConfig, FilterConfig) Subtractor \<times> SubtractorOutput list"
where
  "toy_long_block = Process toy toy_render2 [[2]] () toy_aec (toy_state2, [toy_output])"

section \<open>The misadjustment estimator\<close>





text \<open>
  C3. The call of \<^verbatim>\<open>Update\<close> that completes a window of 4 blocks (the counter stands
  at 3 before it) with an accumulated \<open>y2\<close> above the floor \<open>4 * 200^2 * kBlockSize\<close>:
  the overhang counter becomes 4 when the accumulated \<open>e2\<close> exceeds
  \<open>4 * 7500^2 * kBlockSize\<close> and is decremented, not below 0, otherwise; the smoothed
  estimate becomes \<open>inv + 0.1 * (ratio - inv)\<close>, with \<open>ratio\<close> the accumulated \<open>e2\<close>
  over the accumulated \<open>y2\<close>, exactly when \<open>ratio\<close> is below the estimate or the new
  overhang counter is positive, and keeps its value otherwise.
\<close>

theorem Update_window_end:
  assumes "n_blocks_acum est = 3"
      and "y2_acum est + y2 output > 4 * 200^2 * real N"
  shows "overhang (Update N output est) =
           (if e2_acum est + e2_main output > 4 * 7500^2 * real N then 4
            else max (overhang est - 1) 0) \<and>
         inv_misadjustment (Update N output est) =
           (if (e2_acum est + e2_main output) / (y2_acum est + y2 output) < inv_misadjustment est
               \<or> overhang (Update N output est) > 0
            then inv_misadjustment est +
                 0.1 * ((e2_acum est + e2_main output) / (y2_acum est + y2 output)
                        - inv_misadjustment est)
            else inv_misadjustment est)"
  using assms by (simp add: Update_def n_blocks_def Let_def power2_eq_square)

theorem Update_window_end_witness:
  "n_blocks_acum toy_diverged = 3 \<and>
   y2_acum toy_diverged + y2 (toy_energies 249001 250000) > 4 * 200^2 * real (1::nat) \<and>
   overhang (Update 1 (toy_energies 249001 250000) toy_diverged) = 4 \<and>
   inv_misadjustment (Update 1 (toy_energies 249001 250000) toy_diverged) = 1000249001 / 2500000"
  using Update_window_end [of toy_diverged 1 "toy_energies 249001 250000"]
  by (simp add: toy_diverged_def toy_energies_def toy_estimator_def toy_output_def)






section \<open>The helpers\<close>

lemma ScaleFilterOutput_prefix:
  "n \<le> length y \<Longrightarrow> length e = length y \<Longrightarrow> length s = length y \<Longrightarrow>
   fold (\<lambda>k (e, s). let s' = s[k := s ! k * factor] in (e[k := y ! k - s' ! k], s')) [0..<n] (e, s)
   = (map (\<lambda>k. y ! k - s ! k * factor) [0..<n] @ drop n e,
      map (\<lambda>k. s ! k * factor) [0..<n] @ drop n s)"
proof (induction n)
  case 0
  then show ?case by simp
next
  case (Suc n)
  then have n: "n < length y" by simp
  have s_eq: "(map (\<lambda>k. s ! k * factor) [0..<n] @ drop n s)
              [n := (map (\<lambda>k. s ! k * factor) [0..<n] @ drop n s) ! n * factor]
            = map (\<lambda>k. s ! k * factor) [0..<Suc n] @ drop (Suc n) s"
    using n Suc.prems
    by (intro nth_equalityI) (auto simp: nth_append nth_list_update less_Suc_eq)
  have e_eq: "(map (\<lambda>k. y ! k - s ! k * factor) [0..<n] @ drop n e)
              [n := y ! n - (map (\<lambda>k. s ! k * factor) [0..<Suc n] @ drop (Suc n) s) ! n]
            = map (\<lambda>k. y ! k - s ! k * factor) [0..<Suc n] @ drop (Suc n) e"
    using n Suc.prems
    by (intro nth_equalityI) (auto simp: nth_append nth_list_update less_Suc_eq)
  have "fold (\<lambda>k (e, s). let s' = s[k := s ! k * factor] in (e[k := y ! k - s' ! k], s'))
          [0..<Suc n] (e, s)
        = (let s' = (map (\<lambda>k. s ! k * factor) [0..<n] @ drop n s)
                      [n := (map (\<lambda>k. s ! k * factor) [0..<n] @ drop n s) ! n * factor]
           in ((map (\<lambda>k. y ! k - s ! k * factor) [0..<n] @ drop n e)[n := y ! n - s' ! n], s'))"
    using Suc by simp
  also have "\<dots> = (map (\<lambda>k. y ! k - s ! k * factor) [0..<Suc n] @ drop (Suc n) e,
                    map (\<lambda>k. s ! k * factor) [0..<Suc n] @ drop (Suc n) s)"
    unfolding Let_def s_eq e_eq ..
  finally show ?case .
qed

lemma ScaleFilterOutput_eq:
  assumes "length e = length y" "length s = length y"
  shows "ScaleFilterOutput y factor e s =
           (map (\<lambda>k. y ! k - s ! k * factor) [0..<length y], map (\<lambda>v. v * factor) s)"
proof -
  have "map (\<lambda>k. s ! k * factor) [0..<length y] = map (\<lambda>v. v * factor) s"
    using assms by (intro nth_equalityI) simp_all
  then show ?thesis
    unfolding ScaleFilterOutput_def
    using ScaleFilterOutput_prefix [of "length y" y e s factor] assms by simp
qed

lemma PredictionError_Some:
  "PredictionError env S y e (Some s) =
    (map (\<lambda>i. y ! i - Ifft env S ! (i + kFftLengthBy2 env) * (1 / real (kFftLengthBy2 env)))
       [0..<length y] @ drop (length y) e,
     Some (map (\<lambda>k. 1 / real (kFftLengthBy2 env) * Ifft env S ! (k + kFftLengthBy2 env))
             [0..<length s]))"
  by (simp add: PredictionError_def Let_def)



section \<open>The loop over the channels\<close>

lemma channel_set_channel_same:
  "wf st \<Longrightarrow> ch < num_capture_channels st \<Longrightarrow> channel (set_channel st ch c) ch = c"
  by (simp add: wf_def channel_def set_channel_def)

lemma channel_set_channel_other:
  "j \<noteq> ch \<Longrightarrow> channel (set_channel st ch c) j = channel st j"
  by (simp add: channel_def set_channel_def)

lemma wf_set_channel: "wf (set_channel st ch c) = wf st"
  by (simp add: wf_def set_channel_def)

lemma num_capture_channels_set_channel:
  "num_capture_channels (set_channel st ch c) = num_capture_channels st"
  by (simp add: set_channel_def)

lemma config_set_channel: "config (set_channel st ch c) = config st"
  by (simp add: set_channel_def)

lemma ProcessChannels_prefix:
  assumes "wf st" and "num_capture_channels st \<le> length outputs"
  shows "m \<le> num_capture_channels st \<Longrightarrow>
    (let r = fold (\<lambda>ch (st, outputs).
                    case ProcessChannel env rb (capture ! ch) an aec X2m X2s
                           (channel st ch) (outputs ! ch) of
                      (c, output) \<Rightarrow> (set_channel st ch c, outputs[ch := output]))
                [0..<m] (st, outputs)
     in wf (fst r) \<and> num_capture_channels (fst r) = num_capture_channels st \<and>
        config (fst r) = config st \<and> length (snd r) = length outputs \<and>
        (\<forall>ch. ch < m \<longrightarrow>
           channel (fst r) ch =
             fst (ProcessChannel env rb (capture ! ch) an aec X2m X2s
                    (channel st ch) (outputs ! ch)) \<and>
           snd r ! ch =
             snd (ProcessChannel env rb (capture ! ch) an aec X2m X2s
                    (channel st ch) (outputs ! ch))) \<and>
        (\<forall>ch. m \<le> ch \<longrightarrow> channel (fst r) ch = channel st ch \<and> snd r ! ch = outputs ! ch))"
proof (induction m)
  case 0
  then show ?case using assms by simp
next
  case (Suc m)
  let ?step = "\<lambda>ch (st, outputs).
                    case ProcessChannel env rb (capture ! ch) an aec X2m X2s
                           (channel st ch) (outputs ! ch) of
                      (c, output) \<Rightarrow> (set_channel st ch c, outputs[ch := output])"
  obtain stm outm where r: "fold ?step [0..<m] (st, outputs) = (stm, outm)"
    by (cases "fold ?step [0..<m] (st, outputs)")
  obtain c out where pc: "ProcessChannel env rb (capture ! m) an aec X2m X2s
                           (channel st m) (outputs ! m) = (c, out)"
    by (cases "ProcessChannel env rb (capture ! m) an aec X2m X2s
                           (channel st m) (outputs ! m)")
  have IH: "wf stm" "num_capture_channels stm = num_capture_channels st"
    "config stm = config st" "length outm = length outputs"
    "\<And>ch. ch < m \<Longrightarrow> channel stm ch =
             fst (ProcessChannel env rb (capture ! ch) an aec X2m X2s
                    (channel st ch) (outputs ! ch)) \<and>
           outm ! ch =
             snd (ProcessChannel env rb (capture ! ch) an aec X2m X2s
                    (channel st ch) (outputs ! ch))"
    "\<And>ch. m \<le> ch \<Longrightarrow> channel stm ch = channel st ch \<and> outm ! ch = outputs ! ch"
    using Suc r by (simp_all add: Let_def)
  have step: "fold ?step [0..<Suc m] (st, outputs) = (set_channel stm m c, outm[m := out])"
    using r pc IH(6) [of m] by simp
  have m: "m < num_capture_channels stm" "m < length outm"
    using Suc.prems IH(2,4) assms(2) by simp_all
  show ?case
    unfolding step Let_def fst_conv snd_conv
    using IH m pc
    by (auto simp: wf_set_channel num_capture_channels_set_channel config_set_channel
        channel_set_channel_same channel_set_channel_other less_Suc_eq nth_list_update)
qed

lemma ProcessChannels_channel:
  assumes "wf st" "num_capture_channels st \<le> length outputs" "ch < num_capture_channels st"
  shows "channel (fst (ProcessChannels env rb capture an aec X2m X2s (st, outputs))) ch =
           fst (ProcessChannel env rb (capture ! ch) an aec X2m X2s (channel st ch) (outputs ! ch))"
    and "snd (ProcessChannels env rb capture an aec X2m X2s (st, outputs)) ! ch =
           snd (ProcessChannel env rb (capture ! ch) an aec X2m X2s (channel st ch) (outputs ! ch))"
  using ProcessChannels_prefix [OF assms(1,2), of "num_capture_channels st" env rb capture an aec X2m X2s]
    assms(3)
  by (simp_all add: ProcessChannels_def Let_def)

lemma ProcessChannels_frame:
  assumes "wf st" "num_capture_channels st \<le> length outputs"
  shows "wf (fst (ProcessChannels env rb capture an aec X2m X2s (st, outputs)))"
    and "num_capture_channels (fst (ProcessChannels env rb capture an aec X2m X2s (st, outputs)))
           = num_capture_channels st"
    and "config (fst (ProcessChannels env rb capture an aec X2m X2s (st, outputs))) = config st"
    and "length (snd (ProcessChannels env rb capture an aec X2m X2s (st, outputs))) = length outputs"
  using ProcessChannels_prefix [OF assms(1,2), of "num_capture_channels st" env rb capture an aec X2m X2s]
  by (simp_all add: ProcessChannels_def Let_def)

lemma FormOutputs_fields:
  "e_main (FormOutputs env rb y c output) =
     fst (PredictionError env (Filter env rb (ch_main_filter c)) y (e_main output)
            (Some (s_main output)))"
  "e_shadow (FormOutputs env rb y c output) =
     fst (PredictionError env (Filter env rb (ch_shadow_filter c)) y (e_shadow output)
            (Some (s_shadow output)))"
  "snd (PredictionError env (Filter env rb (ch_main_filter c)) y (e_main output)
            (Some (s_main output))) = Some (s_main (FormOutputs env rb y c output))"
  "snd (PredictionError env (Filter env rb (ch_shadow_filter c)) y (e_shadow output)
            (Some (s_shadow output))) = Some (s_shadow (FormOutputs env rb y c output))"
  by (simp_all add: FormOutputs_def ComputeMetrics_def PredictionError_Some)

lemma AdjustFilter_frame:
  "e_shadow (fst (snd (AdjustFilter env y c output))) = e_shadow output"
  "s_shadow (fst (snd (AdjustFilter env y c output))) = s_shadow output"
  "e2_main (fst (snd (AdjustFilter env y c output))) = e2_main output"
  "e2_shadow (fst (snd (AdjustFilter env y c output))) = e2_shadow output"
  "y2 (fst (snd (AdjustFilter env y c output))) = y2 output"
  "ch_shadow_filter (fst (AdjustFilter env y c output)) = ch_shadow_filter c"
  "ch_G_shadow (fst (AdjustFilter env y c output)) = ch_G_shadow c"
  "ch_G_main (fst (AdjustFilter env y c output)) = ch_G_main c"
  "ch_poor_shadow_filter_counter (fst (AdjustFilter env y c output)) =
     ch_poor_shadow_filter_counter c"
  "ch_frequency_response (fst (AdjustFilter env y c output)) = ch_frequency_response c"
  by (simp_all add: AdjustFilter_def Let_def split: prod.splits)

lemma ComputeSpectra_fields:
  "e_main (fst (ComputeSpectra env output)) = e_main output"
  "e_shadow (fst (ComputeSpectra env output)) = e_shadow output"
  "s_main (fst (ComputeSpectra env output)) = s_main output"
  "s_shadow (fst (ComputeSpectra env output)) = s_shadow output"
  "e2_main (fst (ComputeSpectra env output)) = e2_main output"
  "e2_shadow (fst (ComputeSpectra env output)) = e2_shadow output"
  "y2 (fst (ComputeSpectra env output)) = y2 output"
  "E_main (fst (ComputeSpectra env output)) = ZeroPaddedFft env (e_main output)"
  "E2_main (fst (ComputeSpectra env output)) = Spectrum env (ZeroPaddedFft env (e_main output))"
  "E2_shadow (fst (ComputeSpectra env output)) = Spectrum env (ZeroPaddedFft env (e_shadow output))"
  "snd (ComputeSpectra env output) = ZeroPaddedFft env (e_shadow output)"
  by (simp_all add: ComputeSpectra_def Let_def)

lemma ClampMain_fields:
  "e_main (ClampMain output) = map (\<lambda>a. SafeClamp a (- 32768) 32767) (e_main output)"
  "e_shadow (ClampMain output) = e_shadow output"
  "s_main (ClampMain output) = s_main output"
  "s_shadow (ClampMain output) = s_shadow output"
  "E_main (ClampMain output) = E_main output"
  "E2_main (ClampMain output) = E2_main output"
  "E2_shadow (ClampMain output) = E2_shadow output"
  "e2_main (ClampMain output) = e2_main output"
  "e2_shadow (ClampMain output) = e2_shadow output"
  "y2 (ClampMain output) = y2 output"
  by (simp_all add: ClampMain_def)

lemma UpdateMainFilter_frame:
  "ch_shadow_filter (UpdateMainFilter env rb an aec X2m S adj output c) = ch_shadow_filter c"
  "ch_G_shadow (UpdateMainFilter env rb an aec X2m S adj output c) = ch_G_shadow c"
  "ch_poor_shadow_filter_counter (UpdateMainFilter env rb an aec X2m S adj output c) =
     ch_poor_shadow_filter_counter c"
  "ch_estimator (UpdateMainFilter env rb an aec X2m S adj output c) = ch_estimator c"
  by (simp_all add: UpdateMainFilter_def split: prod.splits)

lemma UpdateShadowFilter_frame:
  "ch_main_filter (UpdateShadowFilter env rb an aec X2s Es output c) = ch_main_filter c"
  "ch_G_main (UpdateShadowFilter env rb an aec X2s Es output c) = ch_G_main c"
  "ch_estimator (UpdateShadowFilter env rb an aec X2s Es output c) = ch_estimator c"
  "ch_frequency_response (UpdateShadowFilter env rb an aec X2s Es output c) =
     ch_frequency_response c"
  "ch_impulse_response (UpdateShadowFilter env rb an aec X2s Es output c) =
     ch_impulse_response c"
  by (simp_all add: UpdateShadowFilter_def Let_def split: prod.splits)

lemma ProcessChannel_snd:
  "snd (ProcessChannel env rb y an aec X2m X2s c output) =
     ClampMain (fst (ComputeSpectra env
       (fst (snd (AdjustFilter env y c (FormOutputs env rb y c output))))))"
  by (simp add: ProcessChannel_def Let_def split: prod.splits)

lemma ProcessChannel_fst:
  "fst (ProcessChannel env rb y an aec X2m X2s c output) =
     UpdateShadowFilter env rb an aec X2s
       (snd (ComputeSpectra env (fst (snd (AdjustFilter env y c (FormOutputs env rb y c output))))))
       (fst (ComputeSpectra env (fst (snd (AdjustFilter env y c (FormOutputs env rb y c output))))))
       (UpdateMainFilter env rb an aec X2m (Filter env rb (ch_shadow_filter c))
          (snd (snd (AdjustFilter env y c (FormOutputs env rb y c output))))
          (fst (ComputeSpectra env (fst (snd (AdjustFilter env y c (FormOutputs env rb y c output))))))
          (fst (AdjustFilter env y c (FormOutputs env rb y c output))))"
  by (simp add: ProcessChannel_def Let_def split: prod.splits)

lemma ProcessChannel_output_fields:
  "e_shadow (snd (ProcessChannel env rb y an aec X2m X2s c output)) =
     e_shadow (FormOutputs env rb y c output)"
  "e2_main (snd (ProcessChannel env rb y an aec X2m X2s c output)) =
     e2_main (FormOutputs env rb y c output)"
  "e2_shadow (snd (ProcessChannel env rb y an aec X2m X2s c output)) =
     e2_shadow (FormOutputs env rb y c output)"
  "E_main (snd (ProcessChannel env rb y an aec X2m X2s c output)) =
     E_main (fst (ComputeSpectra env
       (fst (snd (AdjustFilter env y c (FormOutputs env rb y c output))))))"
  by (simp_all add: ProcessChannel_snd ClampMain_fields ComputeSpectra_fields AdjustFilter_frame)

lemma ProcessChannel_shadow:
  "let c' = fst (ProcessChannel env rb y an aec X2m X2s c output);
       o' = snd (ProcessChannel env rb y an aec X2m X2s c output);
       counter = (if e2_main o' < e2_shadow o' then ch_poor_shadow_filter_counter c + 1 else 0);
       f = SetFilter env (GetFilter env (ch_main_filter c')) (ch_shadow_filter c)
   in ch_poor_shadow_filter_counter c' = (if counter < 5 then counter else 0) \<and>
      (counter < 5 \<longrightarrow>
         ch_shadow_filter c' =
           Adapt env rb
             (fst (ShadowCompute env X2s an (ZeroPaddedFft env (e_shadow o'))
                     (SizePartitions env (ch_shadow_filter c)) (SaturatedCapture aec)
                     (ch_G_shadow c)))
             (ch_shadow_filter c) \<and>
         ch_G_shadow c' =
           snd (ShadowCompute env X2s an (ZeroPaddedFft env (e_shadow o'))
                  (SizePartitions env (ch_shadow_filter c)) (SaturatedCapture aec)
                  (ch_G_shadow c))) \<and>
      (\<not> counter < 5 \<longrightarrow>
         ch_shadow_filter c' =
           Adapt env rb
             (fst (ShadowCompute env X2s an (E_main o') (SizePartitions env f)
                     (SaturatedCapture aec) (ch_G_shadow c)))
             f \<and>
         ch_G_shadow c' =
           snd (ShadowCompute env X2s an (E_main o') (SizePartitions env f)
                  (SaturatedCapture aec) (ch_G_shadow c)))"
  unfolding Let_def ProcessChannel_output_fields
  unfolding ProcessChannel_fst UpdateShadowFilter_frame
  by (simp add: UpdateShadowFilter_def Let_def UpdateMainFilter_frame AdjustFilter_frame
      ComputeSpectra_fields split: prod.splits)

lemma channel_fields:
  "ch_main_filter (channel st ch) = main_filter st ! ch"
  "ch_shadow_filter (channel st ch) = shadow_filter st ! ch"
  "ch_G_main (channel st ch) = G_main st ! ch"
  "ch_G_shadow (channel st ch) = G_shadow st ! ch"
  "ch_estimator (channel st ch) = filter_misadjustment_estimator st ! ch"
  "ch_poor_shadow_filter_counter (channel st ch) = poor_shadow_filter_counter st ! ch"
  "ch_frequency_response (channel st ch) = main_frequency_response st ! ch"
  "ch_impulse_response (channel st ch) = main_impulse_response st ! ch"
  by (simp_all add: channel_def)

lemma Process_channel:
  assumes "wf st" "num_capture_channels st \<le> length outputs" "ch < num_capture_channels st"
  shows "channel (fst (Process env rb capture an aec (st, outputs))) ch =
           fst (ProcessChannel env rb (capture ! ch) an aec
                  (X2_main_of (ComputeRenderPowers env rb st))
                  (X2_shadow_of (ComputeRenderPowers env rb st))
                  (channel st ch) (outputs ! ch))"
    and "snd (Process env rb capture an aec (st, outputs)) ! ch =
           snd (ProcessChannel env rb (capture ! ch) an aec
                  (X2_main_of (ComputeRenderPowers env rb st))
                  (X2_shadow_of (ComputeRenderPowers env rb st))
                  (channel st ch) (outputs ! ch))"
  using assms by (simp_all add: Process_def Let_def ProcessChannels_channel)

section \<open>The residuals\<close>

lemma SafeClamp_range: "lo \<le> hi \<Longrightarrow> lo \<le> SafeClamp x lo hi \<and> SafeClamp x lo hi \<le> hi"
  by (simp add: SafeClamp_def)

text \<open>
  C6. After \<^verbatim>\<open>Process\<close>, every sample of the main residual \<open>e_main\<close> of the output
  of every channel lies between -32768 and 32767.
\<close>

theorem Process_e_main_clamped:
  assumes "wf st" and "num_capture_channels st \<le> length outputs"
      and "ch < num_capture_channels st"
  shows "\<forall>v \<in> set (e_main (snd (Process env render_buffer capture analyzer aec_state
                                   (st, outputs)) ! ch)).
           - 32768 \<le> v \<and> v \<le> 32767"
  using SafeClamp_range [of "- 32768" 32767]
  by (auto simp: Process_channel [OF assms] ProcessChannel_snd ClampMain_fields)

section \<open>The small instance, evaluated\<close>

lemmas toy_unfold =
  Process_def ProcessChannels_def ProcessChannel_def ComputeRenderPowers_def
  toy_def toy_state_def toy_estimator_def toy_render_def toy_output_def toy_aec_def
  toy_diverged_def
  channel_def set_channel_def FormOutputs_def PredictionError_def ComputeMetrics_def
  AdjustFilter_def Update_def n_blocks_def IsAdjustmentNeeded_def GetMisadjustment_def
  ScaleFilterOutput_def Reset_def ComputeSpectra_def
  UpdateMainFilter_def UpdateShadowFilter_def ClampMain_def SafeClamp_def
  toy_Spectrum_def toy_SpectralSum_def toy_Filter_def toy_Adapt_def toy_gain_def Let_def

lemma toy_resync_block_eq:
  "toy_resync_block =
    (\<lparr>config = toy_settings,
      num_capture_channels = 1,
      main_filter = [[\<lparr>re = [3 / 2, 3 / 2], im = [0, 0]\<rparr>]],
      shadow_filter = [[\<lparr>re = [2, 2], im = [0, 0]\<rparr>]],
      G_main = [\<lparr>length_blocks = 1\<rparr>], G_shadow = [\<lparr>length_blocks = 1\<rparr>],
      filter_misadjustment_estimator =
        [\<lparr>n_blocks_acum = 1, e2_acum = 1, y2_acum = 4, inv_misadjustment = 0, overhang = 0\<rparr>],
      poor_shadow_filter_counter = [0],
      main_frequency_response = [[[9 / 4, 9 / 4]]],
      main_impulse_response = [[3 / 2]]\<rparr>,
     [\<lparr>s_main = [1], s_shadow = [0], e_main = [1], e_shadow = [2],
       E_main = \<lparr>re = [1, - 1], im = [0, 0]\<rparr>, E2_main = [1, 1], E2_shadow = [4, 4],
       e2_main = 1, e2_shadow = 4, y2 = 4\<rparr>])"
  unfolding toy_resync_block_def by (simp add: toy_unfold)

lemma toy_loud_block_eq:
  "toy_loud_block =
    (\<lparr>config = toy_settings,
      num_capture_channels = 1,
      main_filter = [[\<lparr>re = [40001 / 2, 40001 / 2], im = [0, 0]\<rparr>]],
      shadow_filter = [[\<lparr>re = [20000, 20000], im = [0, 0]\<rparr>]],
      G_main = [\<lparr>length_blocks = 1\<rparr>], G_shadow = [\<lparr>length_blocks = 1\<rparr>],
      filter_misadjustment_estimator =
        [\<lparr>n_blocks_acum = 1, e2_acum = 1599920001, y2_acum = 1600000000,
          inv_misadjustment = 0, overhang = 0\<rparr>],
      poor_shadow_filter_counter = [1],
      main_frequency_response = [[[1600080001 / 4, 1600080001 / 4]]],
      main_impulse_response = [[40001 / 2]]\<rparr>,
     [\<lparr>s_main = [1], s_shadow = [0], e_main = [32767], e_shadow = [40000],
       E_main = \<lparr>re = [39999, - 39999], im = [0, 0]\<rparr>,
       E2_main = [1599920001, 1599920001], E2_shadow = [1600000000, 1600000000],
       e2_main = 1599920001, e2_shadow = 1600000000, y2 = 1600000000\<rparr>])"
  unfolding toy_loud_block_def by (simp add: toy_unfold)

lemma toy_adjust_block_eq:
  "toy_adjust_block =
    (\<lparr>config = toy_settings,
      num_capture_channels = 1,
      main_filter = [[\<lparr>re = [1 / 2, 1 / 2], im = [0, 0]\<rparr>]],
      shadow_filter = [[\<lparr>re = [250, 250], im = [0, 0]\<rparr>]],
      G_main = [\<lparr>length_blocks = 1\<rparr>], G_shadow = [\<lparr>length_blocks = 1\<rparr>],
      filter_misadjustment_estimator =
        [\<lparr>n_blocks_acum = 0, e2_acum = 0, y2_acum = 0, inv_misadjustment = 0, overhang = 0\<rparr>],
      poor_shadow_filter_counter = [1],
      main_frequency_response = [[[1 / 4, 1 / 4]]],
      main_impulse_response = [[1 / 2]]\<rparr>,
     [\<lparr>s_main = [1 / 2], s_shadow = [0], e_main = [999 / 2], e_shadow = [500],
       E_main = \<lparr>re = [999 / 2, - (999 / 2)], im = [0, 0]\<rparr>,
       E2_main = [998001 / 4, 998001 / 4], E2_shadow = [250000, 250000],
       e2_main = 249001, e2_shadow = 250000, y2 = 250000\<rparr>])"
  unfolding toy_adjust_block_def by (simp add: toy_unfold)

lemma wf_toy_state: "wf (toy_state n est)"
  by (simp add: wf_def toy_state_def)

lemma toy_state_channels:
  "num_capture_channels (toy_state n est) = 1"
  by (simp add: toy_state_def)

theorem Process_e_main_clamped_witness:
  "wf (toy_state 0 toy_estimator) \<and>
   num_capture_channels (toy_state 0 toy_estimator) \<le> length [toy_output] \<and>
   0 < num_capture_channels (toy_state 0 toy_estimator) \<and>
   e_main (snd toy_loud_block ! 0) = [32767] \<and>
   - 32768 \<le> e_main (snd toy_loud_block ! 0) ! 0 \<and>
   e_main (snd toy_loud_block ! 0) ! 0 \<le> 32767"
proof -
  have h: "wf (toy_state 0 toy_estimator)"
    "num_capture_channels (toy_state 0 toy_estimator) \<le> length [toy_output]"
    "0 < num_capture_channels (toy_state 0 toy_estimator)"
    by (simp_all add: wf_toy_state toy_state_channels)
  show ?thesis
    using Process_e_main_clamped [OF h, of toy toy_render "[[40000]]" "()" toy_aec] h
    by (simp add: toy_loud_block_def [symmetric] toy_loud_block_eq)
qed

text \<open>
  C10. Only the main residual is clamped. After \<^verbatim>\<open>Process\<close> the shadow residual
  \<open>e_shadow\<close> of every channel is the residual that \<^verbatim>\<open>PredictionError\<close> computes from
  the output of the shadow filter and the capture block, unclamped; on the loud block
  of the small instance it holds the sample 40000, beyond 32767.
\<close>

theorem Process_e_shadow_unclamped:
  assumes "wf st" and "num_capture_channels st \<le> length outputs"
      and "ch < num_capture_channels st"
  shows "e_shadow (snd (Process env render_buffer capture analyzer aec_state (st, outputs)) ! ch) =
           fst (PredictionError env (Filter env render_buffer (shadow_filter st ! ch))
                  (capture ! ch) (e_shadow (outputs ! ch)) (Some (s_shadow (outputs ! ch)))) \<and>
         e_shadow (snd toy_loud_block ! 0) = [40000] \<and>
         (32767 :: float) < 40000"
  by (simp add: Process_channel [OF assms] ProcessChannel_output_fields FormOutputs_fields
      channel_fields toy_loud_block_eq)

theorem Process_e_shadow_unclamped_witness:
  "wf (toy_state 0 toy_estimator) \<and>
   num_capture_channels (toy_state 0 toy_estimator) \<le> length [toy_output] \<and>
   0 < num_capture_channels (toy_state 0 toy_estimator) \<and>
   e_shadow (snd toy_loud_block ! 0) =
     fst (PredictionError toy (Filter toy toy_render (shadow_filter (toy_state 0 toy_estimator) ! 0))
            ([[40000]] ! 0) (e_shadow ([toy_output] ! 0)) (Some (s_shadow ([toy_output] ! 0))))"
proof -
  have h: "wf (toy_state 0 toy_estimator)"
    "num_capture_channels (toy_state 0 toy_estimator) \<le> length [toy_output]"
    "0 < num_capture_channels (toy_state 0 toy_estimator)"
    by (simp_all add: wf_toy_state toy_state_channels)
  show ?thesis
    using Process_e_shadow_unclamped [OF h, of toy toy_render "[[40000]]" "()" toy_aec] h
    unfolding toy_loud_block_def [symmetric] by blast
qed

text \<open>
  C1 (amended). For every channel, with \<open>counter\<close> the count of consecutive blocks
  with \<open>e2_main < e2_shadow\<close> including this one (the previous count plus one on such a
  block, zero otherwise): below 5, the count is stored and the shadow filter is
  adapted with the gain computed from its own error spectrum \<open>E_shadow\<close>; from 5 on,
  the stored count is 0, the coefficient state of the main filter (as the main filter's
  update of this block has left it) is put into the shadow filter with
  \<^verbatim>\<open>SetFilter(GetFilter())\<close>, the gain is computed from the error spectrum \<open>E_main\<close> of
  the main filter, and the shadow filter after the block is that copy adapted with
  this gain.
\<close>

theorem Process_shadow_update:
  assumes "wf st" and "num_capture_channels st \<le> length outputs"
      and "ch < num_capture_channels st"
  shows "let st' = fst (Process env render_buffer capture analyzer aec_state (st, outputs));
             output = snd (Process env render_buffer capture analyzer aec_state (st, outputs)) ! ch;
             counter = (if e2_main output < e2_shadow output
                        then poor_shadow_filter_counter st ! ch + 1 else 0);
             X2_shadow = X2_shadow_of (ComputeRenderPowers env render_buffer st);
             f = SetFilter env (GetFilter env (main_filter st' ! ch)) (shadow_filter st ! ch)
         in poor_shadow_filter_counter st' ! ch = (if counter < 5 then counter else 0) \<and>
            (counter < 5 \<longrightarrow>
               shadow_filter st' ! ch =
                 Adapt env render_buffer
                   (fst (ShadowCompute env X2_shadow analyzer
                           (ZeroPaddedFft env (e_shadow output))
                           (SizePartitions env (shadow_filter st ! ch))
                           (SaturatedCapture aec_state) (G_shadow st ! ch)))
                   (shadow_filter st ! ch)) \<and>
            (\<not> counter < 5 \<longrightarrow>
               shadow_filter st' ! ch =
                 Adapt env render_buffer
                   (fst (ShadowCompute env X2_shadow analyzer (E_main output)
                           (SizePartitions env f) (SaturatedCapture aec_state)
                           (G_shadow st ! ch)))
                   f)"
  using ProcessChannel_shadow [of env render_buffer "capture ! ch" analyzer aec_state
      "X2_main_of (ComputeRenderPowers env render_buffer st)"
      "X2_shadow_of (ComputeRenderPowers env render_buffer st)" "channel st ch" "outputs ! ch"]
  unfolding Process_channel [OF assms, symmetric] channel_fields Let_def
  by simp

theorem Process_shadow_update_witness:
  "wf (toy_state 4 toy_estimator) \<and>
   num_capture_channels (toy_state 4 toy_estimator) \<le> length [toy_output] \<and>
   0 < num_capture_channels (toy_state 4 toy_estimator) \<and>
   poor_shadow_filter_counter (fst toy_resync_block) ! 0 = 0 \<and>
   shadow_filter (fst toy_resync_block) ! 0 =
     Adapt toy toy_render
       (fst (ShadowCompute toy (X2_shadow_of (ComputeRenderPowers toy toy_render
                                                (toy_state 4 toy_estimator))) ()
               (E_main (snd toy_resync_block ! 0))
               (SizePartitions toy
                  (SetFilter toy (GetFilter toy (main_filter (fst toy_resync_block) ! 0))
                     (shadow_filter (toy_state 4 toy_estimator) ! 0)))
               (SaturatedCapture toy_aec) (G_shadow (toy_state 4 toy_estimator) ! 0)))
       (SetFilter toy (GetFilter toy (main_filter (fst toy_resync_block) ! 0))
          (shadow_filter (toy_state 4 toy_estimator) ! 0))"
proof -
  have h: "wf (toy_state 4 toy_estimator)"
    "num_capture_channels (toy_state 4 toy_estimator) \<le> length [toy_output]"
    "0 < num_capture_channels (toy_state 4 toy_estimator)"
    by (simp_all add: wf_toy_state toy_state_channels)
  have c: "e2_main (snd toy_resync_block ! 0) < e2_shadow (snd toy_resync_block ! 0)"
    "poor_shadow_filter_counter (toy_state 4 toy_estimator) ! 0 = 4"
    by (simp_all add: toy_resync_block_eq toy_state_def)
  show ?thesis
    using Process_shadow_update [OF h, of toy toy_render "[[2]]" "()" toy_aec] h c
    unfolding toy_resync_block_def [symmetric] Let_def by simp
qed

text \<open>
  C1 as stated fails: on the fifth block in a row with \<open>e2_main < e2_shadow\<close> the
  counter is reset, and after the block the coefficients of the shadow filter differ
  from those of the main filter, since the copy has been adapted.
\<close>

theorem Process_shadow_resync_counterexample:
  "poor_shadow_filter_counter (toy_state 4 toy_estimator) ! 0 = 4 \<and>
   e2_main (snd toy_resync_block ! 0) < e2_shadow (snd toy_resync_block ! 0) \<and>
   poor_shadow_filter_counter (fst toy_resync_block) ! 0 = 0 \<and>
   GetFilter toy (shadow_filter (fst toy_resync_block) ! 0) \<noteq>
     GetFilter toy (main_filter (fst toy_resync_block) ! 0)"
  by (simp add: toy_resync_block_eq toy_state_def toy_def)

section \<open>The misadjustment correction\<close>

lemma FormOutputs_lengths:
  "length (s_main (FormOutputs env rb y c output)) = length (s_main output)"
  "length (e_main output) = length y \<Longrightarrow> length (e_main (FormOutputs env rb y c output)) = length y"
  by (simp_all add: FormOutputs_def ComputeMetrics_def PredictionError_Some)

lemma AdjustFilter_adjusted:
  assumes "IsAdjustmentNeeded env (Update (kBlockSize env) output (ch_estimator c))"
      and "length (e_main output) = length y" and "length (s_main output) = length y"
  shows "AdjustFilter env y c output =
    (c\<lparr>ch_main_filter :=
          ScaleFilter env (GetMisadjustment env (Update (kBlockSize env) output (ch_estimator c)))
            (ch_main_filter c),
       ch_impulse_response :=
          map (\<lambda>h_k. h_k * GetMisadjustment env (Update (kBlockSize env) output (ch_estimator c)))
            (ch_impulse_response c),
       ch_estimator := Reset (Update (kBlockSize env) output (ch_estimator c))\<rparr>,
     output\<lparr>e_main :=
              map (\<lambda>i. y ! i - s_main output ! i *
                     GetMisadjustment env (Update (kBlockSize env) output (ch_estimator c)))
                [0..<length y],
            s_main :=
              map (\<lambda>v. v * GetMisadjustment env (Update (kBlockSize env) output (ch_estimator c)))
                (s_main output)\<rparr>,
     True)"
  using assms by (simp add: AdjustFilter_def Let_def ScaleFilterOutput_eq)

lemma FftData_zero_fill:
  "S\<lparr>re := a, im := b\<rparr> = \<lparr>re = a, im = b\<rparr>" for S :: FftData
  by (cases S) simp

lemma map_scale_commute: "map (\<lambda>v. v * k) xs = map (\<lambda>v. k * v) xs" for k :: real
  by (simp add: mult.commute)

lemma UpdateMainFilter_adjusted:
  "UpdateMainFilter env rb an aec X2m S True output c =
    (case AdaptWithImpulseResponse env rb
            \<lparr>re = replicate (length (re S)) 0, im = replicate (length (im S)) 0\<rparr>
            (ch_main_filter c) (ch_impulse_response c) of
       (f, h) \<Rightarrow>
         c\<lparr>ch_G_main := ch_G_main c,
           ch_main_filter := f,
           ch_impulse_response := h,
           ch_frequency_response := ComputeFrequencyResponse env f (ch_frequency_response c)\<rparr>)"
  by (simp add: UpdateMainFilter_def map_replicate_const FftData_zero_fill)

lemma ProcessChannel_adjusted:
  assumes adj: "IsAdjustmentNeeded env
                  (Update (kBlockSize env) (FormOutputs env rb y c output) (ch_estimator c))"
      and len: "length (e_main output) = length y" "length (s_main output) = length y"
  shows "let output1 = FormOutputs env rb y c output;
             est = Update (kBlockSize env) output1 (ch_estimator c);
             k = GetMisadjustment env est;
             S = Filter env rb (ch_shadow_filter c);
             c' = fst (ProcessChannel env rb y an aec X2m X2s c output);
             output' = snd (ProcessChannel env rb y an aec X2m X2s c output)
         in s_main output' = map (\<lambda>v. k * v) (s_main output1) \<and>
            E_main output' =
              ZeroPaddedFft env (map (\<lambda>i. y ! i - k * s_main output1 ! i) [0..<length y]) \<and>
            e_main output' =
              map (\<lambda>i. SafeClamp (y ! i - k * s_main output1 ! i) (- 32768) 32767)
                [0..<length y] \<and>
            ch_estimator c' = Reset est \<and>
            ch_G_main c' = ch_G_main c \<and>
            (ch_main_filter c', ch_impulse_response c') =
              AdaptWithImpulseResponse env rb
                \<lparr>re = replicate (length (re S)) 0, im = replicate (length (im S)) 0\<rparr>
                (ScaleFilter env k (ch_main_filter c))
                (map (\<lambda>h_k. k * h_k) (ch_impulse_response c))"
proof -
  define output1 where "output1 = FormOutputs env rb y c output"
  define est where "est = Update (kBlockSize env) output1 (ch_estimator c)"
  define k where "k = GetMisadjustment env est"
  define S where "S = Filter env rb (ch_shadow_filter c)"
  define c2 where "c2 = c\<lparr>ch_main_filter := ScaleFilter env k (ch_main_filter c),
                          ch_impulse_response := map (\<lambda>h_k. k * h_k) (ch_impulse_response c),
                          ch_estimator := Reset est\<rparr>"
  define output2 where "output2 =
    output1\<lparr>e_main := map (\<lambda>i. y ! i - k * s_main output1 ! i) [0..<length y],
             s_main := map (\<lambda>v. k * v) (s_main output1)\<rparr>"
  have l1: "length (e_main output1) = length y" "length (s_main output1) = length y"
    using len by (simp_all add: output1_def FormOutputs_lengths)
  have a: "AdjustFilter env y c output1 = (c2, output2, True)"
    using AdjustFilter_adjusted [OF adj [folded output1_def] l1]
    by (simp add: c2_def output2_def est_def [symmetric] k_def [symmetric] mult.commute [of _ k])
  have out: "snd (ProcessChannel env rb y an aec X2m X2s c output)
               = ClampMain (fst (ComputeSpectra env output2))"
    by (simp add: ProcessChannel_snd output1_def [symmetric] a)
  have st: "fst (ProcessChannel env rb y an aec X2m X2s c output)
              = UpdateShadowFilter env rb an aec X2s (snd (ComputeSpectra env output2))
                  (fst (ComputeSpectra env output2))
                  (UpdateMainFilter env rb an aec X2m S True (fst (ComputeSpectra env output2)) c2)"
    by (simp add: ProcessChannel_fst output1_def [symmetric] a S_def)
  have o1: "s_main (snd (ProcessChannel env rb y an aec X2m X2s c output))
              = map (\<lambda>v. k * v) (s_main output1)"
    by (simp add: out ClampMain_fields ComputeSpectra_fields output2_def)
  have o2: "E_main (snd (ProcessChannel env rb y an aec X2m X2s c output))
              = ZeroPaddedFft env (map (\<lambda>i. y ! i - k * s_main output1 ! i) [0..<length y])"
    by (simp add: out ClampMain_fields ComputeSpectra_fields output2_def)
  have o3: "e_main (snd (ProcessChannel env rb y an aec X2m X2s c output))
              = map (\<lambda>i. SafeClamp (y ! i - k * s_main output1 ! i) (- 32768) 32767)
                  [0..<length y]"
    by (simp add: out ClampMain_fields ComputeSpectra_fields output2_def o_def)
  have s1: "ch_estimator (fst (ProcessChannel env rb y an aec X2m X2s c output)) = Reset est"
    by (simp add: st UpdateShadowFilter_frame UpdateMainFilter_frame c2_def)
  have s2: "ch_G_main (fst (ProcessChannel env rb y an aec X2m X2s c output)) = ch_G_main c"
    by (simp add: st UpdateShadowFilter_frame UpdateMainFilter_adjusted c2_def split: prod.splits)
  have s3: "(ch_main_filter (fst (ProcessChannel env rb y an aec X2m X2s c output)),
             ch_impulse_response (fst (ProcessChannel env rb y an aec X2m X2s c output)))
              = AdaptWithImpulseResponse env rb
                  \<lparr>re = replicate (length (re S)) 0, im = replicate (length (im S)) 0\<rparr>
                  (ScaleFilter env k (ch_main_filter c))
                  (map (\<lambda>h_k. k * h_k) (ch_impulse_response c))"
    by (simp add: st UpdateShadowFilter_frame UpdateMainFilter_adjusted c2_def split: prod.splits)
  show ?thesis
    unfolding Let_def output1_def [symmetric] est_def [symmetric] k_def [symmetric]
      S_def [symmetric]
    using o1 o2 o3 s1 s2 s3 by blast
qed

lemma Reset_fields:
  "e2_acum (Reset est) = 0" "y2_acum (Reset est) = 0" "n_blocks_acum (Reset est) = 0"
  "inv_misadjustment (Reset est) = 0" "overhang (Reset est) = 0"
  by (simp_all add: Reset_def)

text \<open>
  C2. For every channel on which the estimator, updated with the output of this
  block, signals an adjustment, with \<open>k\<close> its factor: the echo estimate of the output
  is \<open>k\<close> times the one of the main filter's prediction; the main residual is
  recomputed as the capture minus that estimate, sample by sample (its spectrum
  \<open>E_main\<close> is the transform of the recomputed residual, the residual returned is its
  clamp); the estimator is reset, that is, its accumulators, its block counter, its
  smoothed estimate and its overhang counter are zero after the block; the main gain
  computer is not run and keeps its state; and the main filter and its impulse
  response after the block are those that \<^verbatim>\<open>Adapt\<close> makes, for a gain whose real and
  imaginary parts are zero, of the filter scaled by \<open>k\<close> and of the cached impulse
  response multiplied by \<open>k\<close>.
\<close>

theorem Process_misadjustment_correction:
  assumes "wf st" and "num_capture_channels st \<le> length outputs"
      and "ch < num_capture_channels st"
      and "length (e_main (outputs ! ch)) = length (capture ! ch)"
      and "length (s_main (outputs ! ch)) = length (capture ! ch)"
      and "IsAdjustmentNeeded env
             (Update (kBlockSize env)
                (FormOutputs env render_buffer (capture ! ch) (channel st ch) (outputs ! ch))
                (filter_misadjustment_estimator st ! ch))"
  shows "let y = capture ! ch;
             output1 = FormOutputs env render_buffer y (channel st ch) (outputs ! ch);
             est = Update (kBlockSize env) output1 (filter_misadjustment_estimator st ! ch);
             k = GetMisadjustment env est;
             S = Filter env render_buffer (shadow_filter st ! ch);
             st' = fst (Process env render_buffer capture analyzer aec_state (st, outputs));
             output = snd (Process env render_buffer capture analyzer aec_state (st, outputs)) ! ch
         in s_main output = map (\<lambda>v. k * v) (s_main output1) \<and>
            E_main output =
              ZeroPaddedFft env (map (\<lambda>i. y ! i - k * s_main output1 ! i) [0..<length y]) \<and>
            e_main output =
              map (\<lambda>i. SafeClamp (y ! i - k * s_main output1 ! i) (- 32768) 32767)
                [0..<length y] \<and>
            filter_misadjustment_estimator st' ! ch = Reset est \<and>
            e2_acum (filter_misadjustment_estimator st' ! ch) = 0 \<and>
            y2_acum (filter_misadjustment_estimator st' ! ch) = 0 \<and>
            n_blocks_acum (filter_misadjustment_estimator st' ! ch) = 0 \<and>
            inv_misadjustment (filter_misadjustment_estimator st' ! ch) = 0 \<and>
            overhang (filter_misadjustment_estimator st' ! ch) = 0 \<and>
            G_main st' ! ch = G_main st ! ch \<and>
            (main_filter st' ! ch, main_impulse_response st' ! ch) =
              AdaptWithImpulseResponse env render_buffer
                \<lparr>re = replicate (length (re S)) 0, im = replicate (length (im S)) 0\<rparr>
                (ScaleFilter env k (main_filter st ! ch))
                (map (\<lambda>h_k. k * h_k) (main_impulse_response st ! ch))"
proof -
  have adj: "IsAdjustmentNeeded env
               (Update (kBlockSize env)
                  (FormOutputs env render_buffer (capture ! ch) (channel st ch) (outputs ! ch))
                  (ch_estimator (channel st ch)))"
    using assms(6) by (simp add: channel_fields)
  show ?thesis
    using ProcessChannel_adjusted [OF adj assms(4,5), of analyzer aec_state
        "X2_main_of (ComputeRenderPowers env render_buffer st)"
        "X2_shadow_of (ComputeRenderPowers env render_buffer st)"]
    unfolding Process_channel [OF assms(1-3), symmetric] channel_fields Let_def
    by (simp add: Reset_fields)
qed

theorem Process_misadjustment_correction_witness:
  "wf (toy_state 0 toy_diverged) \<and>
   num_capture_channels (toy_state 0 toy_diverged) \<le> length [toy_output] \<and>
   0 < num_capture_channels (toy_state 0 toy_diverged) \<and>
   length (e_main ([toy_output] ! 0)) = length ([[500]] ! 0 :: float list) \<and>
   length (s_main ([toy_output] ! 0)) = length ([[500]] ! 0 :: float list) \<and>
   IsAdjustmentNeeded toy
     (Update (kBlockSize toy)
        (FormOutputs toy toy_render ([[500]] ! 0) (channel (toy_state 0 toy_diverged) 0)
           ([toy_output] ! 0))
        (filter_misadjustment_estimator (toy_state 0 toy_diverged) ! 0)) \<and>
   filter_misadjustment_estimator (fst toy_adjust_block) ! 0 =
     Reset (Update (kBlockSize toy)
        (FormOutputs toy toy_render ([[500]] ! 0) (channel (toy_state 0 toy_diverged) 0)
           ([toy_output] ! 0))
        (filter_misadjustment_estimator (toy_state 0 toy_diverged) ! 0)) \<and>
   e2_acum (filter_misadjustment_estimator (fst toy_adjust_block) ! 0) = 0 \<and>
   y2_acum (filter_misadjustment_estimator (fst toy_adjust_block) ! 0) = 0 \<and>
   n_blocks_acum (filter_misadjustment_estimator (fst toy_adjust_block) ! 0) = 0 \<and>
   inv_misadjustment (filter_misadjustment_estimator (fst toy_adjust_block) ! 0) = 0 \<and>
   overhang (filter_misadjustment_estimator (fst toy_adjust_block) ! 0) = 0 \<and>
   G_main (fst toy_adjust_block) ! 0 = G_main (toy_state 0 toy_diverged) ! 0"
proof -
  have h: "wf (toy_state 0 toy_diverged)"
    "num_capture_channels (toy_state 0 toy_diverged) \<le> length [toy_output]"
    "0 < num_capture_channels (toy_state 0 toy_diverged)"
    by (simp_all add: wf_toy_state toy_state_channels)
  have l: "length (e_main ([toy_output] ! 0)) = length ([[500]] ! 0 :: float list)"
    "length (s_main ([toy_output] ! 0)) = length ([[500]] ! 0 :: float list)"
    by (simp_all add: toy_output_def)
  have adj: "IsAdjustmentNeeded toy
     (Update (kBlockSize toy)
        (FormOutputs toy toy_render ([[500]] ! 0) (channel (toy_state 0 toy_diverged) 0)
           ([toy_output] ! 0))
        (filter_misadjustment_estimator (toy_state 0 toy_diverged) ! 0))"
    by (simp add: toy_unfold)
  show ?thesis
    using Process_misadjustment_correction [OF h l adj, of "()" toy_aec] h l adj
    unfolding toy_adjust_block_def [symmetric] Let_def by blast
qed

section \<open>The render powers\<close>

lemma ComputeRenderPowers_eq:
  assumes "\<And>n1 n2. n1 < n2 \<Longrightarrow>
             SpectralSums env rb n1 n2 = (SpectralSum env rb n1, SpectralSum env rb n2)"
  shows "ComputeRenderPowers env rb st =
          (if SizePartitions env (main_filter st ! 0) = SizePartitions env (shadow_filter st ! 0)
           then Shared (SpectralSum env rb (SizePartitions env (main_filter st ! 0)))
           else Separate (SpectralSum env rb (SizePartitions env (main_filter st ! 0)))
                  (SpectralSum env rb (SizePartitions env (shadow_filter st ! 0))))"
  using assms by (simp add: ComputeRenderPowers_def)

lemma AdjustFilter_not_adjusted:
  "\<not> IsAdjustmentNeeded env (Update (kBlockSize env) output (ch_estimator c)) \<Longrightarrow>
   AdjustFilter env y c output =
     (c\<lparr>ch_estimator := Update (kBlockSize env) output (ch_estimator c)\<rparr>, output, False)"
  by (simp add: AdjustFilter_def Let_def)

lemma ProcessChannel_main:
  assumes "\<not> IsAdjustmentNeeded env
             (Update (kBlockSize env) (FormOutputs env rb y c output) (ch_estimator c))"
  shows "let gain = MainCompute env X2m an
                      (fst (ComputeSpectra env (FormOutputs env rb y c output)))
                      (ComputeErl env (ch_frequency_response c))
                      (SizePartitions env (ch_main_filter c)) (SaturatedCapture aec)
                      (ch_G_main c);
             c' = fst (ProcessChannel env rb y an aec X2m X2s c output)
         in ch_G_main c' = snd gain \<and>
            (ch_main_filter c', ch_impulse_response c') =
              AdaptWithImpulseResponse env rb (fst gain) (ch_main_filter c)
                (ch_impulse_response c)"
  unfolding Let_def ProcessChannel_fst UpdateShadowFilter_frame
    AdjustFilter_not_adjusted [OF assms] fst_conv snd_conv
  by (simp add: UpdateMainFilter_def split: prod.splits)

text \<open>
  C9. Provided the render buffer's \<^verbatim>\<open>SpectralSums\<close>, asked for two partition counts,
  the smaller first, returns what \<^verbatim>\<open>SpectralSum\<close> returns for each: when the main and
  the shadow filter (of channel 0, as in the source) have the same number of
  partitions, one sum is computed and shared; when they differ, a sum of its own is
  computed for each; either way the power passed on for the shadow filter is the sum
  over the shadow filter's partitions, \<^verbatim>\<open>Process\<close> is the loop over the channels run
  with the two sums computed separately, the shadow gain computer of every channel
  is run on the sum over the shadow filter's partitions, and the main gain computer
  of every channel on which no adjustment is signalled (on the others it is not run)
  is run on the sum over the main filter's partitions, its gain being the one the
  main filter is adapted with.
\<close>

theorem Process_render_powers:
  assumes "\<And>n1 n2. n1 < n2 \<Longrightarrow>
             SpectralSums env render_buffer n1 n2 =
               (SpectralSum env render_buffer n1, SpectralSum env render_buffer n2)"
      and "wf st" and "num_capture_channels st \<le> length outputs"
  shows "let n_main = SizePartitions env (main_filter st ! 0);
             n_shadow = SizePartitions env (shadow_filter st ! 0);
             X2 = ComputeRenderPowers env render_buffer st;
             r = Process env render_buffer capture analyzer aec_state (st, outputs)
         in (n_main = n_shadow \<longrightarrow> X2 = Shared (SpectralSum env render_buffer n_main)) \<and>
            (n_main \<noteq> n_shadow \<longrightarrow>
               X2 = Separate (SpectralSum env render_buffer n_main)
                      (SpectralSum env render_buffer n_shadow)) \<and>
            X2_shadow_of X2 = SpectralSum env render_buffer n_shadow \<and>
            r = ProcessChannels env render_buffer capture analyzer aec_state
                  (SpectralSum env render_buffer n_main) (SpectralSum env render_buffer n_shadow)
                  (st, outputs) \<and>
            (\<forall>ch < num_capture_channels st. \<exists>E n.
               G_shadow (fst r) ! ch =
                 snd (ShadowCompute env (SpectralSum env render_buffer n_shadow) analyzer E n
                        (SaturatedCapture aec_state) (G_shadow st ! ch))) \<and>
            (\<forall>ch < num_capture_channels st.
               \<not> IsAdjustmentNeeded env
                   (Update (kBlockSize env)
                      (FormOutputs env render_buffer (capture ! ch) (channel st ch)
                         (outputs ! ch))
                      (filter_misadjustment_estimator st ! ch)) \<longrightarrow>
               G_main (fst r) ! ch =
                 snd (MainCompute env (SpectralSum env render_buffer n_main) analyzer
                        (fst (ComputeSpectra env
                                (FormOutputs env render_buffer (capture ! ch) (channel st ch)
                                   (outputs ! ch))))
                        (ComputeErl env (main_frequency_response st ! ch))
                        (SizePartitions env (main_filter st ! ch))
                        (SaturatedCapture aec_state) (G_main st ! ch)) \<and>
               (main_filter (fst r) ! ch, main_impulse_response (fst r) ! ch) =
                 AdaptWithImpulseResponse env render_buffer
                   (fst (MainCompute env (SpectralSum env render_buffer n_main) analyzer
                           (fst (ComputeSpectra env
                                   (FormOutputs env render_buffer (capture ! ch)
                                      (channel st ch) (outputs ! ch))))
                           (ComputeErl env (main_frequency_response st ! ch))
                           (SizePartitions env (main_filter st ! ch))
                           (SaturatedCapture aec_state) (G_main st ! ch)))
                   (main_filter st ! ch) (main_impulse_response st ! ch))"
proof -
  note X2 = ComputeRenderPowers_eq [OF assms(1), of st]
  have sh: "X2_shadow_of (ComputeRenderPowers env render_buffer st) =
              SpectralSum env render_buffer (SizePartitions env (shadow_filter st ! 0))"
    and mn: "X2_main_of (ComputeRenderPowers env render_buffer st) =
              SpectralSum env render_buffer (SizePartitions env (main_filter st ! 0))"
    by (simp_all add: X2)
  have g: "\<exists>E n. G_shadow (fst (Process env render_buffer capture analyzer aec_state
                                   (st, outputs))) ! ch =
                 snd (ShadowCompute env
                        (SpectralSum env render_buffer (SizePartitions env (shadow_filter st ! 0)))
                        analyzer E n (SaturatedCapture aec_state) (G_shadow st ! ch))"
    if ch: "ch < num_capture_channels st" for ch
  proof -
    have "G_shadow (fst (Process env render_buffer capture analyzer aec_state (st, outputs))) ! ch
          = ch_G_shadow (fst (ProcessChannel env render_buffer (capture ! ch) analyzer aec_state
                  (X2_main_of (ComputeRenderPowers env render_buffer st))
                  (X2_shadow_of (ComputeRenderPowers env render_buffer st))
                  (channel st ch) (outputs ! ch)))"
      using Process_channel(1) [OF assms(2,3) ch, of env render_buffer capture analyzer aec_state]
      by (simp add: channel_fields [symmetric])
    then show ?thesis
      using ProcessChannel_shadow [of env render_buffer "capture ! ch" analyzer aec_state
          "X2_main_of (ComputeRenderPowers env render_buffer st)"
          "X2_shadow_of (ComputeRenderPowers env render_buffer st)" "channel st ch" "outputs ! ch"]
      unfolding sh Let_def channel_fields by metis
  qed
  have m: "G_main (fst (Process env render_buffer capture analyzer aec_state (st, outputs))) ! ch =
             snd (MainCompute env
                    (SpectralSum env render_buffer (SizePartitions env (main_filter st ! 0)))
                    analyzer
                    (fst (ComputeSpectra env
                            (FormOutputs env render_buffer (capture ! ch) (channel st ch)
                               (outputs ! ch))))
                    (ComputeErl env (main_frequency_response st ! ch))
                    (SizePartitions env (main_filter st ! ch))
                    (SaturatedCapture aec_state) (G_main st ! ch)) \<and>
           (main_filter (fst (Process env render_buffer capture analyzer aec_state
                                (st, outputs))) ! ch,
            main_impulse_response (fst (Process env render_buffer capture analyzer aec_state
                                          (st, outputs))) ! ch) =
             AdaptWithImpulseResponse env render_buffer
               (fst (MainCompute env
                       (SpectralSum env render_buffer (SizePartitions env (main_filter st ! 0)))
                       analyzer
                       (fst (ComputeSpectra env
                               (FormOutputs env render_buffer (capture ! ch) (channel st ch)
                                  (outputs ! ch))))
                       (ComputeErl env (main_frequency_response st ! ch))
                       (SizePartitions env (main_filter st ! ch))
                       (SaturatedCapture aec_state) (G_main st ! ch)))
               (main_filter st ! ch) (main_impulse_response st ! ch)"
    if ch: "ch < num_capture_channels st"
      and na: "\<not> IsAdjustmentNeeded env
                   (Update (kBlockSize env)
                      (FormOutputs env render_buffer (capture ! ch) (channel st ch)
                         (outputs ! ch))
                      (filter_misadjustment_estimator st ! ch))" for ch
  proof -
    have na': "\<not> IsAdjustmentNeeded env
                   (Update (kBlockSize env)
                      (FormOutputs env render_buffer (capture ! ch) (channel st ch)
                         (outputs ! ch))
                      (ch_estimator (channel st ch)))"
      using na by (simp add: channel_fields)
    have pc: "fst (ProcessChannel env render_buffer (capture ! ch) analyzer aec_state
                     (SpectralSum env render_buffer (SizePartitions env (main_filter st ! 0)))
                     (X2_shadow_of (ComputeRenderPowers env render_buffer st))
                     (channel st ch) (outputs ! ch))
              = channel (fst (Process env render_buffer capture analyzer aec_state
                                (st, outputs))) ch"
      using Process_channel(1) [OF assms(2,3) ch, of env render_buffer capture analyzer aec_state]
      by (simp add: mn)
    show ?thesis
      using ProcessChannel_main [OF na', of
          "SpectralSum env render_buffer (SizePartitions env (main_filter st ! 0))"
          analyzer aec_state "X2_shadow_of (ComputeRenderPowers env render_buffer st)"]
      unfolding pc channel_fields Let_def
      by simp
  qed
  show ?thesis
    unfolding Let_def using g m by (simp add: X2 Process_def)
qed

theorem Process_render_powers_witness:
  "SpectralSums toy toy_render2 1 2 = (SpectralSum toy toy_render2 1, SpectralSum toy toy_render2 2) \<and>
   wf toy_state2 \<and> num_capture_channels toy_state2 \<le> length [toy_output] \<and>
   SizePartitions toy (main_filter toy_state2 ! 0) = 2 \<and>
   SizePartitions toy (shadow_filter toy_state2 ! 0) = 1 \<and>
   ComputeRenderPowers toy toy_render2 toy_state2 =
     Separate (SpectralSum toy toy_render2 2) (SpectralSum toy toy_render2 1) \<and>
   SpectralSum toy toy_render2 2 = [10, 10] \<and> SpectralSum toy toy_render2 1 = [1, 1] \<and>
   0 < num_capture_channels toy_state2 \<and>
   \<not> IsAdjustmentNeeded toy
       (Update (kBlockSize toy)
          (FormOutputs toy toy_render2 ([[2]] ! 0) (channel toy_state2 0) ([toy_output] ! 0))
          (filter_misadjustment_estimator toy_state2 ! 0)) \<and>
   G_main (fst toy_long_block) ! 0 =
     snd (MainCompute toy (SpectralSum toy toy_render2 2) ()
            (fst (ComputeSpectra toy
                    (FormOutputs toy toy_render2 ([[2]] ! 0) (channel toy_state2 0)
                       ([toy_output] ! 0))))
            (ComputeErl toy (main_frequency_response toy_state2 ! 0))
            (SizePartitions toy (main_filter toy_state2 ! 0))
            (SaturatedCapture toy_aec) (G_main toy_state2 ! 0))"
proof -
  have c: "SpectralSums toy toy_render2 n1 n2 =
             (SpectralSum toy toy_render2 n1, SpectralSum toy toy_render2 n2)" for n1 n2
    by (simp add: toy_def)
  have h: "wf toy_state2" "num_capture_channels toy_state2 \<le> length [toy_output]"
    "0 < num_capture_channels toy_state2"
    by (simp_all add: toy_state2_def wf_def toy_state_def)
  have n: "SizePartitions toy (main_filter toy_state2 ! 0) = 2"
    "SizePartitions toy (shadow_filter toy_state2 ! 0) = 1"
    by (simp_all add: toy_state2_def toy_state_def toy_def)
  have s: "SpectralSum toy toy_render2 2 = [10, 10]" "SpectralSum toy toy_render2 1 = [1, 1]"
    by (simp_all add: toy_def toy_SpectralSum_def toy_Spectrum_def toy_render2_def)
  have na: "\<not> IsAdjustmentNeeded toy
       (Update (kBlockSize toy)
          (FormOutputs toy toy_render2 ([[2]] ! 0) (channel toy_state2 0) ([toy_output] ! 0))
          (filter_misadjustment_estimator toy_state2 ! 0))"
    by (simp add: toy_unfold toy_state2_def toy_render2_def)
  note t = Process_render_powers [OF c h(1,2), of "[[2]]" "()" toy_aec, unfolded Let_def]
  note m = t [THEN conjunct2, THEN conjunct2, THEN conjunct2, THEN conjunct2, THEN conjunct2,
      rule_format, OF h(3) na, THEN conjunct1]
  have x: "ComputeRenderPowers toy toy_render2 toy_state2 =
     Separate (SpectralSum toy toy_render2 2) (SpectralSum toy toy_render2 1)"
    using t n by simp
  show ?thesis
    using c [of 1 2] h n s na x m
    unfolding toy_long_block_def [symmetric] n
    by simp
qed

section \<open>Echo path changes\<close>

lemma map_prefix_nth:
  "m < length xs \<Longrightarrow> (map F (take m xs) @ drop m xs) ! m = xs ! m"
  by (simp add: nth_append)

lemma map_prefix_step:
  "m < length xs \<Longrightarrow> v = F (xs ! m) \<Longrightarrow>
   (map F (take m xs) @ drop m xs)[m := v] = map F (take (Suc m) xs) @ drop (Suc m) xs"
  by (intro nth_equalityI) (auto simp: nth_append nth_list_update less_Suc_eq min_def)

lemma full_reset_prefix:
  assumes "wf st"
  shows "m \<le> num_capture_channels st \<Longrightarrow>
    fold (full_reset_channel env v) [0..<m] st =
      st\<lparr>main_filter :=
            map (\<lambda>f. SetSizePartitions env (length_blocks (main_initial (config st))) True
                       (FilterHandleEchoPathChange env f)) (take m (main_filter st))
            @ drop m (main_filter st),
         shadow_filter :=
            map (\<lambda>f. SetSizePartitions env (length_blocks (shadow_initial (config st))) True
                       (FilterHandleEchoPathChange env f)) (take m (shadow_filter st))
            @ drop m (shadow_filter st),
         G_main :=
            map (\<lambda>g. MainSetConfig env (main_initial (config st)) True
                       (MainHandleEchoPathChange env v g)) (take m (G_main st))
            @ drop m (G_main st),
         G_shadow :=
            map (\<lambda>g. ShadowSetConfig env (shadow_initial (config st)) True
                       (ShadowHandleEchoPathChange env g)) (take m (G_shadow st))
            @ drop m (G_shadow st)\<rparr>"
proof (induction m)
  case 0
  then show ?case by simp
next
  case (Suc m)
  then have m: "m < length (main_filter st)" "m < length (shadow_filter st)"
    "m < length (G_main st)" "m < length (G_shadow st)"
    using assms by (simp_all add: wf_def)
  show ?case
    using Suc m by (simp add: full_reset_channel_def map_prefix_step map_prefix_nth)
qed

lemma full_reset_eq:
  assumes "wf st"
  shows "full_reset env v st =
      st\<lparr>main_filter :=
            map (\<lambda>f. SetSizePartitions env (length_blocks (main_initial (config st))) True
                       (FilterHandleEchoPathChange env f)) (main_filter st),
         shadow_filter :=
            map (\<lambda>f. SetSizePartitions env (length_blocks (shadow_initial (config st))) True
                       (FilterHandleEchoPathChange env f)) (shadow_filter st),
         G_main :=
            map (\<lambda>g. MainSetConfig env (main_initial (config st)) True
                       (MainHandleEchoPathChange env v g)) (G_main st),
         G_shadow :=
            map (\<lambda>g. ShadowSetConfig env (shadow_initial (config st)) True
                       (ShadowHandleEchoPathChange env g)) (G_shadow st)\<rparr>"
  using full_reset_prefix [OF assms, of "num_capture_channels st" env v] assms
  by (simp add: full_reset_def wf_def)

lemma notify_gain_change_prefix:
  "m \<le> length (G_main st) \<Longrightarrow>
    fold (\<lambda>ch st. st\<lparr>G_main := (G_main st)[ch :=
                        MainHandleEchoPathChange env v (G_main st ! ch)]\<rparr>) [0..<m] st =
      st\<lparr>G_main := map (MainHandleEchoPathChange env v) (take m (G_main st))
                      @ drop m (G_main st)\<rparr>"
proof (induction m)
  case 0
  then show ?case by simp
next
  case (Suc m)
  then show ?case by (simp add: map_prefix_step map_prefix_nth)
qed

lemma notify_gain_change_eq:
  assumes "length (G_main st) = num_capture_channels st"
  shows "notify_gain_change env v st = st\<lparr>G_main := map (MainHandleEchoPathChange env v) (G_main st)\<rparr>"
  using notify_gain_change_prefix [of "num_capture_channels st" st env v] assms
  by (simp add: notify_gain_change_def)

text \<open>
  C5. On an event with a delay change, \<^verbatim>\<open>HandleEchoPathChange\<close> leaves the subtractor
  as it was but for the two filters and the two gain computers of every channel: each
  filter receives \<^verbatim>\<open>HandleEchoPathChange()\<close>, which zeroes it, and then
  \<^verbatim>\<open>SetSizePartitions\<close> with the initial length of its kind and immediate effect; each
  gain computer is notified and receives \<^verbatim>\<open>SetConfig\<close> with the initial configuration
  and immediate effect (the main one is notified once more when the event reports a
  gain change as well). On an event with a gain change and no delay change, the main
  gain computer of every channel is notified and nothing else changes. On an event
  with neither, nothing changes.
\<close>

theorem HandleEchoPathChange_effect:
  assumes "wf st"
  shows "(delay_change v \<noteq> kNone \<longrightarrow>
            HandleEchoPathChange env v st =
              st\<lparr>main_filter :=
                    map (\<lambda>f. SetSizePartitions env (length_blocks (main_initial (config st))) True
                               (FilterHandleEchoPathChange env f)) (main_filter st),
                 shadow_filter :=
                    map (\<lambda>f. SetSizePartitions env (length_blocks (shadow_initial (config st))) True
                               (FilterHandleEchoPathChange env f)) (shadow_filter st),
                 G_main :=
                    map (\<lambda>g. let g' = MainSetConfig env (main_initial (config st)) True
                                         (MainHandleEchoPathChange env v g)
                              in if gain_change v then MainHandleEchoPathChange env v g' else g')
                      (G_main st),
                 G_shadow :=
                    map (\<lambda>g. ShadowSetConfig env (shadow_initial (config st)) True
                               (ShadowHandleEchoPathChange env g)) (G_shadow st)\<rparr>) \<and>
         (delay_change v = kNone \<and> gain_change v \<longrightarrow>
            HandleEchoPathChange env v st =
              st\<lparr>G_main := map (MainHandleEchoPathChange env v) (G_main st)\<rparr>) \<and>
         (delay_change v = kNone \<and> \<not> gain_change v \<longrightarrow> HandleEchoPathChange env v st = st)"
proof -
  have g: "length (G_main st) = num_capture_channels st"
    using assms by (simp add: wf_def)
  show ?thesis
    using g by (simp add: HandleEchoPathChange_def Let_def full_reset_eq [OF assms]
        notify_gain_change_eq)
qed

theorem HandleEchoPathChange_effect_witness:
  "wf (toy_state 0 toy_estimator) \<and>
   delay_change toy_delay_change \<noteq> kNone \<and>
   main_filter (HandleEchoPathChange toy toy_delay_change (toy_state 0 toy_estimator)) =
     [[\<lparr>re = [0, 0], im = [0, 0]\<rparr>]] \<and>
   delay_change toy_gain_change = kNone \<and> gain_change toy_gain_change \<and>
   HandleEchoPathChange toy toy_gain_change (toy_state 0 toy_estimator) =
     (toy_state 0 toy_estimator)
       \<lparr>G_main := map (MainHandleEchoPathChange toy toy_gain_change)
                     (G_main (toy_state 0 toy_estimator))\<rparr>"
proof -
  have h: "wf (toy_state 0 toy_estimator)"
    by (rule wf_toy_state)
  have d: "delay_change toy_delay_change \<noteq> kNone"
    "delay_change toy_gain_change = kNone" "gain_change toy_gain_change"
    by (simp_all add: toy_delay_change_def toy_gain_change_def)
  have m: "map (\<lambda>f. SetSizePartitions toy
                        (length_blocks (main_initial (config (toy_state 0 toy_estimator)))) True
                        (FilterHandleEchoPathChange toy f))
             (main_filter (toy_state 0 toy_estimator)) = [[\<lparr>re = [0, 0], im = [0, 0]\<rparr>]]"
    by (simp add: toy_def toy_state_def toy_settings_def)
  show ?thesis
    using HandleEchoPathChange_effect [OF h, of toy_delay_change toy]
      HandleEchoPathChange_effect [OF h, of toy_gain_change toy] h d m
    by simp
qed

section \<open>Runs\<close>

lemma FormOutputs_stale:
  assumes "block_sized (length y) o1" "block_sized (length y) o2"
  shows "FormOutputs env rb y c o2 =
           (FormOutputs env rb y c o1)\<lparr>E_main := E_main o2, E2_main := E2_main o2,
                                       E2_shadow := E2_shadow o2\<rparr>"
  using assms
  by (simp add: FormOutputs_def PredictionError_Some ComputeMetrics_def block_sized_def)

lemma AdjustFilter_stale:
  "AdjustFilter env y c (output\<lparr>E_main := a, E2_main := b, E2_shadow := d\<rparr>) =
     (case AdjustFilter env y c output of
        (c2, o2, adjusted) \<Rightarrow> (c2, o2\<lparr>E_main := a, E2_main := b, E2_shadow := d\<rparr>, adjusted))"
  by (simp add: AdjustFilter_def Update_def Let_def split: prod.splits)

lemma ComputeSpectra_stale:
  "ComputeSpectra env (output\<lparr>E_main := a, E2_main := b, E2_shadow := d\<rparr>) =
     ComputeSpectra env output"
  by (simp add: ComputeSpectra_def Let_def)

lemma ProcessChannel_independent:
  assumes "block_sized (length y) o1" "block_sized (length y) o2"
  shows "ProcessChannel env rb y an aec X2m X2s c o1 =
         ProcessChannel env rb y an aec X2m X2s c o2"
  unfolding ProcessChannel_def Let_def FormOutputs_stale [OF assms] AdjustFilter_stale
  by (simp add: ComputeSpectra_stale split: prod.splits)

lemma Subtractor_eqI:
  fixes s1 s2 :: "('f, 'gm, 'gs) Subtractor"
  assumes "wf s1" "wf s2" "num_capture_channels s1 = num_capture_channels s2"
      and "config s1 = config s2"
      and "\<And>ch. ch < num_capture_channels s1 \<Longrightarrow> channel s1 ch = channel s2 ch"
  shows "s1 = s2"
proof -
  have f: "main_filter s1 ! ch = main_filter s2 ! ch"
    "shadow_filter s1 ! ch = shadow_filter s2 ! ch"
    "G_main s1 ! ch = G_main s2 ! ch"
    "G_shadow s1 ! ch = G_shadow s2 ! ch"
    "filter_misadjustment_estimator s1 ! ch = filter_misadjustment_estimator s2 ! ch"
    "poor_shadow_filter_counter s1 ! ch = poor_shadow_filter_counter s2 ! ch"
    "main_frequency_response s1 ! ch = main_frequency_response s2 ! ch"
    "main_impulse_response s1 ! ch = main_impulse_response s2 ! ch"
    if "ch < num_capture_channels s1" for ch
    using assms(5) [OF that] by (simp_all add: channel_def)
  have "main_filter s1 = main_filter s2" "shadow_filter s1 = shadow_filter s2"
    "G_main s1 = G_main s2" "G_shadow s1 = G_shadow s2"
    "filter_misadjustment_estimator s1 = filter_misadjustment_estimator s2"
    "poor_shadow_filter_counter s1 = poor_shadow_filter_counter s2"
    "main_frequency_response s1 = main_frequency_response s2"
    "main_impulse_response s1 = main_impulse_response s2"
    using assms(1-3) f by (auto intro!: nth_equalityI simp: wf_def)
  then show ?thesis
    using assms(3,4) by simp
qed

lemma Process_frame:
  assumes "wf st" "num_capture_channels st \<le> length outputs"
  shows "wf (fst (Process env rb capture an aec (st, outputs)))"
    and "num_capture_channels (fst (Process env rb capture an aec (st, outputs)))
           = num_capture_channels st"
    and "config (fst (Process env rb capture an aec (st, outputs))) = config st"
    and "length (snd (Process env rb capture an aec (st, outputs))) = length outputs"
  using assms by (simp_all add: Process_def Let_def ProcessChannels_frame)

lemma Process_independent:
  assumes wf: "wf st"
      and len: "length outputs1 = num_capture_channels st"
               "length outputs2 = num_capture_channels st"
               "length capture = num_capture_channels st"
      and y: "list_all (\<lambda>y. length y = n) capture"
      and b: "list_all (block_sized n) outputs1" "list_all (block_sized n) outputs2"
  shows "Process env rb capture an aec (st, outputs1) = Process env rb capture an aec (st, outputs2)"
proof -
  have l: "num_capture_channels st \<le> length outputs1" "num_capture_channels st \<le> length outputs2"
    using len by simp_all
  have pc: "ProcessChannel env rb (capture ! ch) an aec X2m X2s (channel st ch) (outputs1 ! ch)
          = ProcessChannel env rb (capture ! ch) an aec X2m X2s (channel st ch) (outputs2 ! ch)"
    if "ch < num_capture_channels st" for ch X2m X2s
  proof -
    have "length (capture ! ch) = n" "block_sized n (outputs1 ! ch)" "block_sized n (outputs2 ! ch)"
      using that len y b by (simp_all add: list_all_length)
    then show ?thesis
      using ProcessChannel_independent [of "capture ! ch" "outputs1 ! ch" "outputs2 ! ch"] by simp
  qed
  have "fst (Process env rb capture an aec (st, outputs1))
          = fst (Process env rb capture an aec (st, outputs2))"
  proof (rule Subtractor_eqI)
    fix ch
    assume "ch < num_capture_channels (fst (Process env rb capture an aec (st, outputs1)))"
    then have ch: "ch < num_capture_channels st"
      by (simp add: Process_frame [OF wf l(1)])
    show "channel (fst (Process env rb capture an aec (st, outputs1))) ch
            = channel (fst (Process env rb capture an aec (st, outputs2))) ch"
      by (simp add: Process_channel(1) [OF wf l(1) ch] Process_channel(1) [OF wf l(2) ch] pc [OF ch])
  qed (simp_all add: Process_frame [OF wf l(1)] Process_frame [OF wf l(2)])
  moreover have "snd (Process env rb capture an aec (st, outputs1))
          = snd (Process env rb capture an aec (st, outputs2))"
  proof (rule nth_equalityI)
    fix ch
    assume "ch < length (snd (Process env rb capture an aec (st, outputs1)))"
    then have ch: "ch < num_capture_channels st"
      by (simp add: Process_frame [OF wf l(1)] len)
    show "snd (Process env rb capture an aec (st, outputs1)) ! ch
            = snd (Process env rb capture an aec (st, outputs2)) ! ch"
      by (simp add: Process_channel(2) [OF wf l(1) ch] Process_channel(2) [OF wf l(2) ch] pc [OF ch])
  qed (simp add: Process_frame [OF wf l(1)] Process_frame [OF wf l(2)] len)
  ultimately show ?thesis
    by (simp add: prod_eq_iff)
qed

lemma inputs_fit_Cons:
  "inputs_fit env st ((rb, capture, an, aec) # inputs) \<longleftrightarrow>
     length capture = num_capture_channels st \<and>
     list_all (\<lambda>y. length y = kBlockSize env) capture \<and> inputs_fit env st inputs"
  by (simp add: inputs_fit_def)

lemma buffers_fit_Cons:
  "buffers_fit env st (outputs # buffers) \<longleftrightarrow>
     length outputs = num_capture_channels st \<and>
     list_all (block_sized (kBlockSize env)) outputs \<and> buffers_fit env st buffers"
  by (simp add: buffers_fit_def)

text \<open>
  C7. Two runs from the same state of the subtractor on the same sequence of block
  inputs produce the same sequence of outputs, whatever the output arrays that the
  caller passes to the one and to the other run hold: the outputs are a function of
  the state and of the inputs alone. (Equality of the model's values stands for bit
  identity; the collaborators are functions of their arguments.)
\<close>

theorem ProcessBlocks_deterministic:
  assumes "wf st" and "inputs_fit env st inputs"
      and "buffers_fit env st buffers1" and "buffers_fit env st buffers2"
      and "length buffers1 = length inputs" and "length buffers2 = length inputs"
  shows "ProcessBlocks env (zip inputs buffers1) st = ProcessBlocks env (zip inputs buffers2) st"
  using assms
proof (induction inputs arbitrary: st buffers1 buffers2)
  case Nil
  then show ?case by simp
next
  case (Cons i inputs)
  obtain rb capture an aec where i: "i = (rb, capture, an, aec)"
    by (cases i)
  obtain b1 bs1 where b1: "buffers1 = b1 # bs1"
    using Cons.prems(5) by (cases buffers1) simp_all
  obtain b2 bs2 where b2: "buffers2 = b2 # bs2"
    using Cons.prems(6) by (cases buffers2) simp_all
  have fit: "length capture = num_capture_channels st"
    "list_all (\<lambda>y. length y = kBlockSize env) capture" "inputs_fit env st inputs"
    "length b1 = num_capture_channels st" "list_all (block_sized (kBlockSize env)) b1"
    "buffers_fit env st bs1"
    "length b2 = num_capture_channels st" "list_all (block_sized (kBlockSize env)) b2"
    "buffers_fit env st bs2"
    using Cons.prems(2-4) by (simp_all add: i b1 b2 inputs_fit_Cons buffers_fit_Cons)
  have p: "Process env rb capture an aec (st, b1) = Process env rb capture an aec (st, b2)"
    using Process_independent [OF Cons.prems(1) fit(4,7,1,2,5,8)] .
  obtain st' outs' where r: "Process env rb capture an aec (st, b2) = (st', outs')"
    by (cases "Process env rb capture an aec (st, b2)")
  have fr: "wf st'" "num_capture_channels st' = num_capture_channels st"
    using Process_frame(1,2) [of st b2 env rb capture an aec] Cons.prems(1) fit(7) r by simp_all
  have i': "inputs_fit env st' inputs" "buffers_fit env st' bs1" "buffers_fit env st' bs2"
    using fit(3,6,9) by (simp_all add: inputs_fit_def buffers_fit_def fr(2))
  have l': "length bs1 = length inputs" "length bs2 = length inputs"
    using Cons.prems(5,6) by (simp_all add: b1 b2)
  have "ProcessBlocks env (zip inputs bs1) st' = ProcessBlocks env (zip inputs bs2) st'"
    using Cons.IH [OF fr(1) i' l'] .
  then show ?case
    by (simp add: i b1 b2 p r)
qed

theorem ProcessBlocks_deterministic_witness:
  "wf (toy_state 0 toy_estimator) \<and>
   inputs_fit toy (toy_state 0 toy_estimator) [(toy_render, [[2]], (), toy_aec)] \<and>
   buffers_fit toy (toy_state 0 toy_estimator) [[toy_output]] \<and>
   buffers_fit toy (toy_state 0 toy_estimator) [[toy_stale_output]] \<and>
   ProcessBlocks toy (zip [(toy_render, [[2]], (), toy_aec)] [[toy_output]])
     (toy_state 0 toy_estimator) =
   ProcessBlocks toy (zip [(toy_render, [[2]], (), toy_aec)] [[toy_stale_output]])
     (toy_state 0 toy_estimator)"
proof -
  have h: "wf (toy_state 0 toy_estimator)"
    by (rule wf_toy_state)
  have i: "inputs_fit toy (toy_state 0 toy_estimator) [(toy_render, [[2]], (), toy_aec)]"
    by (simp add: inputs_fit_def toy_state_def toy_def)
  have b: "buffers_fit toy (toy_state 0 toy_estimator) [[toy_output]]"
    "buffers_fit toy (toy_state 0 toy_estimator) [[toy_stale_output]]"
    by (simp_all add: buffers_fit_def block_sized_def toy_state_def toy_def toy_output_def
        toy_stale_output_def)
  show ?thesis
    using ProcessBlocks_deterministic [OF h i b] h i b by simp
qed

end
